theory Spec2Isabelle
  imports Complex_Main
begin

section \<open>Data model of \<^verbatim>\<open>backend/main.py\<close>\<close>

text \<open>
  The two enumerations and the pydantic models of the orchestrator. A Python attribute
  called \<^verbatim>\<open>id\<close>, \<^verbatim>\<open>name\<close>, \<^verbatim>\<open>type\<close> or \<^verbatim>\<open>config\<close> occurs in several
  models; a record field is a constant of the theory, so each one carries the name of its
  model in front (\<open>run_id\<close> is \<^verbatim>\<open>Run.id\<close>, \<open>log_id\<close> is \<^verbatim>\<open>LogEntry.id\<close>,
  \<open>req_name\<close> is \<^verbatim>\<open>CreateRunRequest.name\<close>, and so on). All other fields keep the
  name they have in the source.
\<close>

datatype RunStatus = PENDING | RUNNING | COMPLETED | FAILED | CANCELLED

datatype LogLevel = INFO | WARN | ERROR | DEBUG

text \<open>A reading of the clock (\<^verbatim>\<open>datetime.now()\<close>); the program only stores it.\<close>

type_synonym datetime = nat

record DockerImage =
  image_id :: string
  repo :: string
  tag :: string
  image_type :: string

record BrainProfile =
  profile_id :: string
  profile_name :: string
  profile_config :: string

record Artifact =
  artifact_id :: string
  kind :: string
  s3_uri :: string

record Run =
  run_id :: string
  run_name :: string
  status :: RunStatus
  createdAt :: datetime
  montyImage :: DockerImage
  simulatorImage :: DockerImage
  brainProfile :: BrainProfile
  artifacts :: "Artifact list"
  glueCode :: "string option"
  checkpointIn :: "string option"
  checkpointOut :: "string option"

record LogEntry =
  log_id :: int
  runId :: string
  timestamp :: datetime
  level :: LogLevel
  message :: string

record MetricPoint =
  time :: real
  reward :: real
  energy :: real
  nociceptor :: real

record CreateRunRequest =
  req_name :: string
  req_montyImage :: DockerImage
  req_simulatorImage :: DockerImage
  req_brainProfile :: BrainProfile
  req_glueCode :: string
  req_checkpointIn :: "string option"
  activeDeadlineSeconds :: int

text \<open>
  The module constants read from the environment when the module is loaded
  (\<^verbatim>\<open>NAMESPACE\<close>, the two bucket names, \<^verbatim>\<open>ECR_REGISTRY\<close>, \<^verbatim>\<open>AWS_REGION\<close>).
  They never change afterwards, so every operation takes them as one parameter.
\<close>

record config =
  NAMESPACE :: string
  S3_CHECKPOINTS_BUCKET :: string
  S3_ARTIFACTS_BUCKET :: string
  ECR_REGISTRY :: string
  AWS_REGION :: string

text \<open>
  The nested dictionaries, lists, strings and integers of which the Kubernetes job
  template is built. A dictionary keeps the order in which the literal lists its keys.
\<close>

datatype json =
    JStr string
  | JNum int
  | JArr "json list"
  | JObj "(string \<times> json) list"

section \<open>Errors and the outcomes of the collaborators\<close>

text \<open>
  \<open>HTTPException code detail\<close> is the exception the routes raise. \<open>ValueError\<close> is
  what \<^verbatim>\<open>list.remove\<close> raises for an element that is not in the list.
\<close>

datatype error = HTTPException int string | ValueError

text \<open>
  A call to a collaborator either returns or raises the exception the source catches:
  \<^verbatim>\<open>ClientError\<close> for \<^verbatim>\<open>s3_client.put_object\<close>, \<^verbatim>\<open>ApiException\<close> for the two
  calls on \<^verbatim>\<open>k8s_batch_v1\<close>. The string is the text of the exception.
\<close>

datatype s3_outcome = PutOk | ClientError string

datatype k8s_outcome = ApiOk | ApiException string

text \<open>A live connection is known by its identity only (two sockets are equal when they
  are the same object).\<close>

type_synonym WebSocket = nat

text \<open>
  What one call of \<^verbatim>\<open>_add_log\<close> takes from outside: the clock reading for the entry
  and, for each connection, whether \<^verbatim>\<open>send_text\<close> to it returns (\<open>True\<close>) or raises.
\<close>

record log_io =
  now :: datetime
  send_ok :: "WebSocket \<Rightarrow> bool"

text \<open>
  What one call of \<^verbatim>\<open>create_run\<close> takes from outside: \<open>stamp\<close> is the text
  \<^verbatim>\<open>datetime.now().strftime('%Y%m%d-%H%M%S')\<close> of line 142, \<open>created\<close> the clock reading
  of line 149, \<open>put\<close> and \<open>submit\<close> the outcomes of the upload and of the job creation,
  \<open>job_log\<close> the inputs of the \<^verbatim>\<open>_add_log\<close> inside \<^verbatim>\<open>_create_k8s_job\<close> and
  \<open>queued_log\<close> those of the \<^verbatim>\<open>_add_log\<close> at the end of \<^verbatim>\<open>create_run\<close>.
\<close>

record create_io =
  stamp :: string
  created :: datetime
  put :: s3_outcome
  submit :: k8s_outcome
  job_log :: log_io
  queued_log :: log_io

record cancel_io =
  delete :: k8s_outcome
  cancel_log :: log_io

text \<open>
  The calls the program makes on its collaborators, in the order it makes them:
  \<open>CreateJob namespace body\<close> is \<^verbatim>\<open>create_namespaced_job\<close> and \<open>DeleteJob name namespace\<close>
  is \<^verbatim>\<open>delete_namespaced_job\<close>.
\<close>

record s3_put =
  Bucket :: string
  Key :: string
  Body :: string
  ContentType :: string

datatype k8s_call =
    CreateJob string json
  | DeleteJob string string

section \<open>The state of the process\<close>

text \<open>
  The five module globals (\<^verbatim>\<open>runs\<close>, \<^verbatim>\<open>logs\<close>, \<^verbatim>\<open>metrics\<close>,
  \<^verbatim>\<open>active_connections\<close>, \<^verbatim>\<open>log_counter\<close>), followed by the history of what the
  program did to the outside world: the objects it put into the object store, the calls
  it made on the scheduler and the log entries a \<^verbatim>\<open>send_text\<close> handed over to a
  connection. A Python dictionary is an association list with distinct keys in insertion
  order.
\<close>

record state =
  runs :: "(string \<times> Run) list"
  logs :: "(string \<times> LogEntry list) list"
  metrics :: "(string \<times> MetricPoint list) list"
  active_connections :: "WebSocket list"
  log_counter :: int
  s3_puts :: "s3_put list"
  k8s_calls :: "k8s_call list"
  ws_sent :: "(WebSocket \<times> LogEntry) list"

definition init :: state where
  "init = \<lparr>runs = [], logs = [], metrics = [], active_connections = [], log_counter = 0,
            s3_puts = [], k8s_calls = [], ws_sent = []\<rparr>"

text \<open>\<^verbatim>\<open>d[k] = v\<close>: an existing key keeps its place, a new key goes to the end.\<close>

fun dict_set :: "'k \<Rightarrow> 'v \<Rightarrow> ('k \<times> 'v) list \<Rightarrow> ('k \<times> 'v) list" where
  "dict_set k v [] = [(k, v)]"
| "dict_set k v ((k', v') # d) = (if k' = k then (k, v) # d else (k', v') # dict_set k v d)"

text \<open>\<^verbatim>\<open>logs.get(run_id, [])\<close>.\<close>

definition logs_of :: "state \<Rightarrow> string \<Rightarrow> LogEntry list" where
  "logs_of s rid = (case map_of (logs s) rid of None \<Rightarrow> [] | Some es \<Rightarrow> es)"

text \<open>The status of a run of the registry, if the run is there.\<close>

definition status_of :: "state \<Rightarrow> string \<Rightarrow> RunStatus option" where
  "status_of s rid = map_option status (map_of (runs s) rid)"

text \<open>
  A \<^verbatim>\<open>Run\<close> object is shared between the registry and the local variable \<^verbatim>\<open>run\<close>
  of the operation that works on it. An assignment to a field of the object is therefore
  an update of the local value together with the entry of the registry under which the
  object is stored.
\<close>

definition store_run :: "state \<Rightarrow> string \<Rightarrow> Run \<Rightarrow> state" where
  "store_run s rid run = s\<lparr>runs := dict_set rid run (runs s)\<rparr>"

section \<open>Decimal text of a number\<close>

text \<open>\<^verbatim>\<open>str(n)\<close> for a natural number, as the f-string of the run id formats it.\<close>

definition digit_char :: "nat \<Rightarrow> char" where
  "digit_char d = ''0123456789'' ! d"

fun str_nat :: "nat \<Rightarrow> string" where
  "str_nat n = (if n < 10 then [digit_char n] else str_nat (n div 10) @ [digit_char (n mod 10)])"

declare str_nat.simps [simp del]

section \<open>Broadcasting and appending log entries\<close>

text \<open>
  \<^verbatim>\<open>_broadcast_log\<close>, lines 374 to 386. The \<^verbatim>\<open>for\<close> loop walks the list
  \<^verbatim>\<open>active_connections\<close> itself by position: each round reads the element at position
  \<open>i\<close> of the list as it is then, and stops when \<open>i\<close> reaches its length. When the send
  raises, the handler removes the connection from that same list. The first component of
  the pair is the list of connections, the second the entries handed over so far.
\<close>

function broadcast_loop ::
  "(WebSocket \<Rightarrow> bool) \<Rightarrow> LogEntry \<Rightarrow> nat \<Rightarrow> WebSocket list \<times> (WebSocket \<times> LogEntry) list
     \<Rightarrow> WebSocket list \<times> (WebSocket \<times> LogEntry) list" where
  "broadcast_loop ok log_entry i (conns, sent) =
     (if i < length conns then
        (if ok (conns ! i)
         then broadcast_loop ok log_entry (i + 1) (conns, sent @ [(conns ! i, log_entry)])
         else broadcast_loop ok log_entry (i + 1) (remove1 (conns ! i) conns, sent))
      else (conns, sent))"
  by pat_completeness auto
termination
  by (relation "measure (\<lambda>(ok, e, i, conns, sent). length conns - i)")
     (auto simp: length_remove1)

declare broadcast_loop.simps [simp del]

definition broadcast_log :: "state \<Rightarrow> LogEntry \<Rightarrow> (WebSocket \<Rightarrow> bool) \<Rightarrow> state" where
  "broadcast_log s log_entry ok =
     (case broadcast_loop ok log_entry 0 (active_connections s, ws_sent s) of
        (conns, sent) \<Rightarrow> s\<lparr>active_connections := conns, ws_sent := sent\<rparr>)"

text \<open>\<^verbatim>\<open>_add_log\<close>, lines 354 to 372.\<close>

definition add_log :: "state \<Rightarrow> string \<Rightarrow> LogLevel \<Rightarrow> string \<Rightarrow> log_io \<Rightarrow> state" where
  "add_log s rid lvl msg io =
     (let log_entry = \<lparr>log_id = log_counter s, runId = rid, timestamp = now io,
                       level = lvl, message = msg\<rparr>;
          s1 = (if map_of (logs s) rid = None then s\<lparr>logs := dict_set rid [] (logs s)\<rparr> else s);
          s2 = s1\<lparr>logs := dict_set rid (logs_of s1 rid @ [log_entry]) (logs s1)\<rparr>;
          s3 = s2\<lparr>log_counter := log_counter s2 + 1\<rparr>
      in broadcast_log s3 log_entry (send_ok io))"

section \<open>The job template\<close>

text \<open>
  \<^verbatim>\<open>_prepare_job_template\<close>, lines 211 to 352. \<open>or_empty\<close> is the Python expression
  \<^verbatim>\<open>run.checkpointIn or ""\<close>: \<^verbatim>\<open>None\<close> and the empty string both give the empty string.
\<close>

definition or_empty :: "string option \<Rightarrow> string" where
  "or_empty x = (case x of None \<Rightarrow> [] | Some v \<Rightarrow> v)"

definition s3_glue_prefix :: "config \<Rightarrow> Run \<Rightarrow> string" where
  "s3_glue_prefix cfg run = ''s3://'' @ S3_ARTIFACTS_BUCKET cfg @ ''/glue/'' @ run_id run"

definition s3_artifacts_prefix :: "config \<Rightarrow> Run \<Rightarrow> string" where
  "s3_artifacts_prefix cfg run =
     ''s3://'' @ S3_ARTIFACTS_BUCKET cfg @ ''/runs/'' @ run_id run @ ''/artifacts''"

definition s3_checkpoint_in :: "Run \<Rightarrow> string" where
  "s3_checkpoint_in run = or_empty (checkpointIn run)"

definition s3_checkpoint_out :: "config \<Rightarrow> Run \<Rightarrow> string" where
  "s3_checkpoint_out cfg run =
     ''s3://'' @ S3_CHECKPOINTS_BUCKET cfg @ ''/checkpoints/'' @ run_id run @ ''/out.mstate''"

text \<open>
  The shell text of the uploader, lines 326 to 334: a triple-quoted f-string, so the line
  breaks and the indentation of the source (36 blanks, 40 before \<^verbatim>\<open>aws s3 cp\<close>) are
  part of the value.
\<close>

definition blanks :: "nat \<Rightarrow> string" where
  "blanks n = replicate n (CHR '' '')"

definition uploader_script :: "config \<Rightarrow> Run \<Rightarrow> string" where
  \<open>uploader_script cfg run =
     ''\<newline>'' @ blanks 36 @ ''set -e\<newline>''
     @ blanks 36 @ ''echo "Uploading artifacts..."\<newline>''
     @ blanks 36 @ ''aws s3 sync /artifacts '' @ s3_artifacts_prefix cfg run
         @ '' --only-show-errors\<newline>''
     @ blanks 36 @ ''if [ -f /checkpoints/out.mstate ]; then\<newline>''
     @ blanks 40 @ ''aws s3 cp /checkpoints/out.mstate '' @ s3_checkpoint_out cfg run
         @ '' --only-show-errors\<newline>''
     @ blanks 36 @ ''fi\<newline>''
     @ blanks 36 @ ''echo "Done."\<newline>''
     @ blanks 36\<close>

definition prepare_job_template :: "config \<Rightarrow> Run \<Rightarrow> int \<Rightarrow> json" where
  "prepare_job_template cfg run active_deadline_seconds =
    (let monty_image = ECR_REGISTRY cfg @ ''/'' @ repo (montyImage run) @ '':'' @ tag (montyImage run);
         sim_image = ECR_REGISTRY cfg @ ''/'' @ repo (simulatorImage run) @ '':''
                       @ tag (simulatorImage run);
         glue_image = ECR_REGISTRY cfg @ ''/glue-base:py310''
     in JObj [
      (''apiVersion'', JStr ''batch/v1''),
      (''kind'', JStr ''Job''),
      (''metadata'', JObj [
        (''name'', JStr (''sim-run-'' @ run_id run)),
        (''namespace'', JStr (NAMESPACE cfg)),
        (''labels'', JObj [
          (''app'', JStr ''sim-run''),
          (''run-id'', JStr (run_id run)),
          (''user'', JStr ''default''),
          (''profile'', JStr (profile_id (brainProfile run)))])]),
      (''spec'', JObj [
        (''ttlSecondsAfterFinished'', JNum 600),
        (''activeDeadlineSeconds'', JNum active_deadline_seconds),
        (''backoffLimit'', JNum 0),
        (''template'', JObj [
          (''metadata'', JObj [
            (''labels'', JObj [
              (''app'', JStr ''sim-run''),
              (''run-id'', JStr (run_id run))])]),
          (''spec'', JObj [
            (''restartPolicy'', JStr ''Never''),
            (''serviceAccountName'', JStr ''sim-runner''),
            (''nodeSelector'', JObj [(''role'', JStr ''gpu'')]),
            (''tolerations'', JArr [
              JObj [
                (''key'', JStr ''nvidia.com/gpu''),
                (''operator'', JStr ''Equal''),
                (''value'', JStr ''present''),
                (''effect'', JStr ''NoSchedule'')]]),
            (''containers'', JArr [
              JObj [
                (''name'', JStr ''unitree-sim''),
                (''image'', JStr sim_image),
                (''imagePullPolicy'', JStr ''IfNotPresent''),
                (''resources'', JObj [
                  (''limits'', JObj [(''nvidia.com/gpu'', JNum 1)])]),
                (''env'', JArr [
                  JObj [(''name'', JStr ''DT''), (''value'', JStr ''0.005'')],
                  JObj [(''name'', JStr ''WEBRTC''), (''value'', JStr ''true'')]]),
                (''ports'', JArr [
                  JObj [
                    (''name'', JStr ''webrtc''),
                    (''containerPort'', JNum 8554),
                    (''protocol'', JStr ''TCP'')]]),
                (''volumeMounts'', JArr [
                  JObj [(''name'', JStr ''ckpt''), (''mountPath'', JStr ''/checkpoints'')],
                  JObj [(''name'', JStr ''artifacts''), (''mountPath'', JStr ''/artifacts'')],
                  JObj [(''name'', JStr ''glue''), (''mountPath'', JStr ''/glue'')]])],
              JObj [
                (''name'', JStr ''monty''),
                (''image'', JStr monty_image),
                (''env'', JArr [
                  JObj [(''name'', JStr ''CHECKPOINT_IN''), (''value'', JStr (s3_checkpoint_in run))],
                  JObj [(''name'', JStr ''CHECKPOINT_OUT''),
                        (''value'', JStr ''/checkpoints/out.mstate'')],
                  JObj [(''name'', JStr ''MONTY_CONFIG''), (''value'', JStr ''/glue/monty.yaml'')],
                  JObj [(''name'', JStr ''DT''), (''value'', JStr ''0.005'')]]),
                (''volumeMounts'', JArr [
                  JObj [(''name'', JStr ''ckpt''), (''mountPath'', JStr ''/checkpoints'')],
                  JObj [(''name'', JStr ''artifacts''), (''mountPath'', JStr ''/artifacts'')],
                  JObj [(''name'', JStr ''glue''), (''mountPath'', JStr ''/glue'')]])],
              JObj [
                (''name'', JStr ''glue''),
                (''image'', JStr glue_image),
                (''command'', JArr [JStr ''python'', JStr ''/glue/run.py'']),
                (''env'', JArr [
                  JObj [(''name'', JStr ''DT''), (''value'', JStr ''0.005'')],
                  JObj [(''name'', JStr ''OBS_SCHEMA_PATH''),
                        (''value'', JStr ''/glue/observation.schema.json'')],
                  JObj [(''name'', JStr ''ACT_SCHEMA_PATH''),
                        (''value'', JStr ''/glue/action.schema.json'')]]),
                (''volumeMounts'', JArr [
                  JObj [(''name'', JStr ''ckpt''), (''mountPath'', JStr ''/checkpoints'')],
                  JObj [(''name'', JStr ''artifacts''), (''mountPath'', JStr ''/artifacts'')],
                  JObj [(''name'', JStr ''glue''), (''mountPath'', JStr ''/glue'')]])],
              JObj [
                (''name'', JStr ''artifact-uploader''),
                (''image'', JStr ''public.ecr.aws/aws-cli/aws-cli:latest''),
                (''command'', JArr [JStr ''/bin/sh'', JStr ''-lc'', JStr (uploader_script cfg run)]),
                (''volumeMounts'', JArr [
                  JObj [(''name'', JStr ''ckpt''), (''mountPath'', JStr ''/checkpoints'')],
                  JObj [(''name'', JStr ''artifacts''), (''mountPath'', JStr ''/artifacts'')]])]]),
            (''volumes'', JArr [
              JObj [(''name'', JStr ''ckpt''), (''emptyDir'', JObj [])],
              JObj [(''name'', JStr ''artifacts''), (''emptyDir'', JObj [])],
              JObj [(''name'', JStr ''glue''), (''emptyDir'', JObj [])]])])])])])"

text \<open>
  Reading and replacing one value inside a descriptor. A path is a list of dictionary
  keys and list positions; \<open>json_get\<close> is the chain of subscripts \<^verbatim>\<open>j[k1][k2]...\<close>
  (\<open>None\<close> where Python would raise) and \<open>json_put\<close> is the assignment
  \<^verbatim>\<open>j[k1][k2]... = v\<close> on a copy, which leaves a descriptor without that path as it is.
\<close>

datatype selector = Field string | Item nat

fun json_get :: "selector list \<Rightarrow> json \<Rightarrow> json option" where
  "json_get [] j = Some j"
| "json_get (Field k # p) (JObj d) =
     (case map_of d k of None \<Rightarrow> None | Some x \<Rightarrow> json_get p x)"
| "json_get (Item i # p) (JArr xs) = (if i < length xs then json_get p (xs ! i) else None)"
| "json_get (sel # p) j = None"

fun json_put :: "selector list \<Rightarrow> json \<Rightarrow> json \<Rightarrow> json" where
  "json_put [] v j = v"
| "json_put (Field k # p) v (JObj d) =
     (case map_of d k of None \<Rightarrow> JObj d | Some x \<Rightarrow> JObj (dict_set k (json_put p v x) d))"
| "json_put (Item i # p) v (JArr xs) =
     (if i < length xs then JArr (xs[i := json_put p v (xs ! i)]) else JArr xs)"
| "json_put (sel # p) v j = j"

text \<open>The containers of a descriptor, one of them by name, and a variable of its
  environment.\<close>

definition containers :: "json \<Rightarrow> json list" where
  "containers j =
     (case json_get [Field ''spec'', Field ''template'', Field ''spec'', Field ''containers''] j of
        Some (JArr cs) \<Rightarrow> cs
      | _ \<Rightarrow> [])"

definition container :: "string \<Rightarrow> json \<Rightarrow> json option" where
  "container nm j = find (\<lambda>c. json_get [Field ''name''] c = Some (JStr nm)) (containers j)"

definition env_value :: "string \<Rightarrow> json \<Rightarrow> json option" where
  "env_value var c =
     (case json_get [Field ''env''] c of
        Some (JArr vars) \<Rightarrow>
          (case find (\<lambda>e. json_get [Field ''name''] e = Some (JStr var)) vars of
             None \<Rightarrow> None
           | Some e \<Rightarrow> json_get [Field ''value''] e)
      | _ \<Rightarrow> None)"

text \<open>Where the descriptor holds the checkpoint-in value: the first variable of the
  environment of the second container.\<close>

definition checkpoint_in_path :: "selector list" where
  "checkpoint_in_path =
     [Field ''spec'', Field ''template'', Field ''spec'', Field ''containers'', Item 1,
      Field ''env'', Item 0, Field ''value'']"

section \<open>Creating a run\<close>

text \<open>
  \<^verbatim>\<open>_upload_glue_code\<close>, lines 172 to 185. The two calls on \<^verbatim>\<open>logger\<close> write to the
  log of the process, which is no part of the state; they are left out here and below.
\<close>

definition upload_glue_code ::
  "config \<Rightarrow> state \<Rightarrow> string \<Rightarrow> string \<Rightarrow> s3_outcome \<Rightarrow> state \<times> (error + unit)" where
  "upload_glue_code cfg s rid glue_code outcome =
     (let key = ''glue/'' @ rid @ ''/run.py'';
          s1 = s\<lparr>s3_puts := s3_puts s @ [\<lparr>Bucket = S3_ARTIFACTS_BUCKET cfg, Key = key,
                                           Body = glue_code, ContentType = ''text/plain''\<rparr>]\<rparr>
      in case outcome of
           PutOk \<Rightarrow> (s1, Inr ())
         | ClientError e \<Rightarrow> (s1, Inl (HTTPException 500 ''Failed to upload glue code'')))"

text \<open>
  \<^verbatim>\<open>_create_k8s_job\<close>, lines 187 to 209. It returns the state, the \<^verbatim>\<open>run\<close> object as
  the assignment to its status left it, and the exception if one is raised.
\<close>

definition create_k8s_job ::
  "config \<Rightarrow> state \<Rightarrow> Run \<Rightarrow> int \<Rightarrow> k8s_outcome \<Rightarrow> log_io \<Rightarrow> state \<times> Run \<times> (error + unit)" where
  "create_k8s_job cfg s run active_deadline_seconds outcome io =
     (let job_template = prepare_job_template cfg run active_deadline_seconds;
          s1 = s\<lparr>k8s_calls := k8s_calls s @ [CreateJob (NAMESPACE cfg) job_template]\<rparr>
      in case outcome of
           ApiOk \<Rightarrow>
             (let run1 = run\<lparr>status := RUNNING\<rparr>;
                  s2 = store_run s1 (run_id run1) run1;
                  s3 = add_log s2 (run_id run1) INFO ''Kubernetes job created and started'' io
              in (s3, run1, Inr ()))
         | ApiException e \<Rightarrow>
             (let run1 = run\<lparr>status := FAILED\<rparr>;
                  s2 = store_run s1 (run_id run1) run1;
                  s3 = add_log s2 (run_id run1) ERROR (''Failed to create Kubernetes job: '' @ e) io
              in (s3, run1, Inl (HTTPException 500 ''Failed to create simulation job''))))"

text \<open>\<^verbatim>\<open>SimulationOrchestrator.create_run\<close>, lines 140 to 170.\<close>

definition new_run_id :: "state \<Rightarrow> string \<Rightarrow> string" where
  "new_run_id s stmp = ''run-'' @ str_nat (length (runs s) + 1) @ ''-'' @ stmp"

text \<open>The \<^verbatim>\<open>Run(...)\<close> object of lines 145 to 155; the fields it does not name take
  their defaults.\<close>

definition new_run :: "string \<Rightarrow> CreateRunRequest \<Rightarrow> datetime \<Rightarrow> Run" where
  "new_run rid request t =
     \<lparr>run_id = rid, run_name = req_name request, status = PENDING, createdAt = t,
      montyImage = req_montyImage request, simulatorImage = req_simulatorImage request,
      brainProfile = req_brainProfile request, artifacts = [],
      glueCode = Some (req_glueCode request), checkpointIn = req_checkpointIn request,
      checkpointOut = None\<rparr>"

definition create_run ::
  "config \<Rightarrow> state \<Rightarrow> CreateRunRequest \<Rightarrow> create_io \<Rightarrow> state \<times> (error + Run)" where
  "create_run cfg s request io =
     (let rid = new_run_id s (stamp io);
          run = new_run rid request (created io);
          s1 = s\<lparr>runs := dict_set rid run (runs s)\<rparr>;
          s2 = s1\<lparr>logs := dict_set rid [] (logs s1)\<rparr>;
          s3 = s2\<lparr>metrics := dict_set rid [] (metrics s2)\<rparr>
      in case upload_glue_code cfg s3 rid (req_glueCode request) (put io) of
           (s4, Inl err) \<Rightarrow> (s4, Inl err)
         | (s4, Inr u) \<Rightarrow>
             (case create_k8s_job cfg s4 run (activeDeadlineSeconds request) (submit io)
                     (job_log io) of
                (s5, run1, Inl err) \<Rightarrow> (s5, Inl err)
              | (s5, run1, Inr u) \<Rightarrow>
                  (add_log s5 rid INFO (''Run '' @ run_name run1 @ '' created and queued'')
                     (queued_log io),
                   Inr run1)))"

section \<open>The routes\<close>



definition get_run_logs :: "state \<Rightarrow> string \<Rightarrow> error + LogEntry list" where
  "get_run_logs s rid =
     (if map_of (runs s) rid = None then Inl (HTTPException 404 ''Run not found'')
      else Inr (logs_of s rid))"

definition get_run_metrics :: "state \<Rightarrow> string \<Rightarrow> error + MetricPoint list" where
  "get_run_metrics s rid =
     (if map_of (runs s) rid = None then Inl (HTTPException 404 ''Run not found'')
      else Inr (case map_of (metrics s) rid of None \<Rightarrow> [] | Some ms \<Rightarrow> ms))"

text \<open>\<^verbatim>\<open>cancel_run\<close>, lines 431 to 455; the value it returns on success is the message
  of the reply.\<close>

definition cancel_run :: "config \<Rightarrow> state \<Rightarrow> string \<Rightarrow> cancel_io \<Rightarrow> state \<times> (error + string)" where
  "cancel_run cfg s rid io =
     (case map_of (runs s) rid of
        None \<Rightarrow> (s, Inl (HTTPException 404 ''Run not found''))
      | Some run \<Rightarrow>
          if status run \<notin> set [PENDING, RUNNING]
          then (s, Inl (HTTPException 400 ''Run cannot be cancelled''))
          else
            (let s1 = s\<lparr>k8s_calls := k8s_calls s @ [DeleteJob (''sim-run-'' @ rid) (NAMESPACE cfg)]\<rparr>
             in case delete io of
                  ApiOk \<Rightarrow>
                    (let s2 = store_run s1 rid (run\<lparr>status := CANCELLED\<rparr>);
                         s3 = add_log s2 rid INFO ''Run cancelled by user'' (cancel_log io)
                     in (s3, Inr ''Run cancelled successfully''))
                | ApiException e \<Rightarrow> (s1, Inl (HTTPException 500 ''Failed to cancel run''))))"

text \<open>
  \<^verbatim>\<open>websocket_endpoint\<close>, lines 486 to 496, in its two halves: the connection is accepted
  and appended to the list; when the peer disconnects it is removed from the list, and
  \<^verbatim>\<open>list.remove\<close> raises if a failed send has removed it before.
\<close>

definition ws_connect :: "state \<Rightarrow> WebSocket \<Rightarrow> state" where
  "ws_connect s websocket = s\<lparr>active_connections := active_connections s @ [websocket]\<rparr>"

definition ws_disconnect :: "state \<Rightarrow> WebSocket \<Rightarrow> state \<times> (error + unit)" where
  "ws_disconnect s websocket =
     (if websocket \<in> set (active_connections s)
      then (s\<lparr>active_connections := remove1 websocket (active_connections s)\<rparr>, Inr ())
      else (s, Inl ValueError))"

section \<open>Executions\<close>

text \<open>
  The requests that change the state, each with what it takes from outside, and the
  state after a sequence of them, starting from the state of a process that has just
  been started. Between the computation of a run id and its entry into the registry,
  and between the test and the assignment of a status, the source has no point at which
  another request could run, so one request at a time is what the program does as far as
  the registry goes.
\<close>

datatype request =
    CreateRun CreateRunRequest create_io
  | CancelRun string cancel_io
  | Connect WebSocket
  | Disconnect WebSocket

fun step :: "config \<Rightarrow> state \<Rightarrow> request \<Rightarrow> state" where
  "step cfg s (CreateRun req io) = fst (create_run cfg s req io)"
| "step cfg s (CancelRun rid io) = fst (cancel_run cfg s rid io)"
| "step cfg s (Connect ws) = ws_connect s ws"
| "step cfg s (Disconnect ws) = fst (ws_disconnect s ws)"

definition exec :: "config \<Rightarrow> request list \<Rightarrow> state" where
  "exec cfg rs = foldl (step cfg) init rs"

text \<open>The run ids that the \<^verbatim>\<open>create_run\<close> calls of an execution allocate, in order.\<close>

fun allocated_ids :: "config \<Rightarrow> state \<Rightarrow> request list \<Rightarrow> string list" where
  "allocated_ids cfg s [] = []"
| "allocated_ids cfg s (CreateRun req io # rs) =
     new_run_id s (stamp io) # allocated_ids cfg (step cfg s (CreateRun req io)) rs"
| "allocated_ids cfg s (r # rs) = allocated_ids cfg (step cfg s r) rs"

section \<open>Properties of states and the edges of the status\<close>

text \<open>
  The edges along which the description of the life cycle lets a status move. This table
  is written after that description, not after the code: the code has no such table.
\<close>

fun claimed_edge :: "RunStatus \<Rightarrow> RunStatus \<Rightarrow> bool" where
  "claimed_edge PENDING RUNNING = True"
| "claimed_edge PENDING FAILED = True"
| "claimed_edge RUNNING COMPLETED = True"
| "claimed_edge RUNNING FAILED = True"
| "claimed_edge RUNNING CANCELLED = True"
| "claimed_edge a b = False"

definition terminal :: "RunStatus \<Rightarrow> bool" where
  "terminal st = (st = COMPLETED \<or> st = FAILED \<or> st = CANCELLED)"

text \<open>
  Every key of the registry is a run id whose number is at most the number of runs in the
  registry.
\<close>

definition ids_numbered :: "state \<Rightarrow> bool" where
  "ids_numbered s \<longleftrightarrow>
     (\<forall>k \<in> fst ` set (runs s).
        \<exists>n a. n \<le> length (runs s) \<and> k = ''run-'' @ str_nat n @ ''-'' @ a)"

text \<open>
  Only runs of the registry have a log stream; every id in a stream is below the counter;
  the ids of a stream increase strictly; no id occurs in two streams.
\<close>

definition logs_wf :: "state \<Rightarrow> bool" where
  "logs_wf s \<longleftrightarrow>
     (\<forall>k. map_of (runs s) k = None \<longrightarrow> map_of (logs s) k = None)
     \<and> (\<forall>k. \<forall>e \<in> set (logs_of s k). log_id e < log_counter s)
     \<and> (\<forall>k. sorted_wrt (<) (map log_id (logs_of s k)))
     \<and> (\<forall>k k'. \<forall>e \<in> set (logs_of s k). \<forall>e' \<in> set (logs_of s k').
           log_id e = log_id e' \<longrightarrow> k = k')"

section \<open>Example inputs\<close>

text \<open>The configuration of a process started with an empty environment, except for a
  registry address, and a request built from the first entries of the three catalogues of
  the source.\<close>

definition example_config :: config where
  "example_config =
     \<lparr>NAMESPACE = ''monty-sim'', S3_CHECKPOINTS_BUCKET = ''monty-checkpoints-dev'',
      S3_ARTIFACTS_BUCKET = ''sim-artifacts-dev'', ECR_REGISTRY = ''registry.example'',
      AWS_REGION = ''us-east-1''\<rparr>"

definition example_request :: CreateRunRequest where
  "example_request =
     \<lparr>req_name = ''demo'',
      req_montyImage = \<lparr>image_id = ''m1'', repo = ''monty'', tag = ''latest'',
                          image_type = ''monty''\<rparr>,
      req_simulatorImage = \<lparr>image_id = ''s1'', repo = ''unitree-sim'', tag = ''isaac-5.0'',
                              image_type = ''simulator''\<rparr>,
      req_brainProfile = \<lparr>profile_id = ''bp1'', profile_name = ''Small (Fast)'',
                            profile_config = ''size: small''\<rparr>,
      req_glueCode = ''pass'',
      req_checkpointIn = None,
      activeDeadlineSeconds = 3600\<rparr>"

definition all_sends_ok :: log_io where
  "all_sends_ok = \<lparr>now = 0, send_ok = (\<lambda>c. True)\<rparr>"

definition io_ok :: create_io where
  "io_ok = \<lparr>stamp = ''20240101-120000'', created = 0, put = PutOk, submit = ApiOk,
            job_log = all_sends_ok, queued_log = all_sends_ok\<rparr>"

definition io_upload_fails :: create_io where
  "io_upload_fails = io_ok\<lparr>put := ClientError ''AccessDenied''\<rparr>"

definition io_submit_fails :: create_io where
  "io_submit_fails = io_ok\<lparr>submit := ApiException ''(403) Forbidden''\<rparr>"

definition cancel_ok :: cancel_io where
  "cancel_ok = \<lparr>delete = ApiOk, cancel_log = all_sends_ok\<rparr>"

definition example_run_id :: string where
  "example_run_id = ''run-1-20240101-120000''"

definition example_entry :: LogEntry where
  "example_entry = \<lparr>log_id = 0, runId = example_run_id, timestamp = 0, level = INFO,
                     message = ''Kubernetes job created and started''\<rparr>"

section \<open>Run ids are told apart by their number\<close>

lemma digit_char_inj: "a < 10 \<Longrightarrow> b < 10 \<Longrightarrow> digit_char a = digit_char b \<Longrightarrow> a = b"
  unfolding digit_char_def by (subst (asm) nth_eq_iff_index_eq) simp_all

lemma str_nat_nonempty: "str_nat n \<noteq> []" "[] \<noteq> str_nat n"
  by (subst str_nat.simps, simp)+

lemma digit_char_in: "d < 10 \<Longrightarrow> digit_char d \<in> set ''0123456789''"
  unfolding digit_char_def by (rule nth_mem) simp

lemma digit_char_not_dash:
  "d < 10 \<Longrightarrow> digit_char d \<noteq> CHR ''-''" "d < 10 \<Longrightarrow> CHR ''-'' \<noteq> digit_char d"
  using digit_char_in [of d] by auto

lemma dash_notin_str_nat: "CHR ''-'' \<notin> set (str_nat n)"
proof (induction n rule: str_nat.induct)
  case (1 n)
  show ?case
  proof (cases "n < 10")
    case True
    then show ?thesis by (subst str_nat.simps) (simp add: digit_char_not_dash)
  next
    case False
    then have "CHR ''-'' \<notin> set (str_nat (n div 10))" using 1 by simp
    moreover have "digit_char (n mod 10) \<noteq> CHR ''-''" by (simp add: digit_char_not_dash)
    ultimately show ?thesis using False by (subst str_nat.simps) auto
  qed
qed

lemma str_nat_inj: "str_nat n = str_nat m \<Longrightarrow> n = m"
proof (induction n arbitrary: m rule: str_nat.induct)
  case (1 n)
  show ?case
  proof (cases "n < 10")
    case n: True
    show ?thesis
    proof (cases "m < 10")
      case True
      with n 1(2) show ?thesis
        by (simp add: str_nat.simps [of n] str_nat.simps [of m] digit_char_inj)
    next
      case False
      with n 1(2) show ?thesis
        by (simp add: str_nat.simps [of n] str_nat.simps [of m] str_nat_nonempty)
    qed
  next
    case n: False
    show ?thesis
    proof (cases "m < 10")
      case True
      with n 1(2) show ?thesis
        by (simp add: str_nat.simps [of n] str_nat.simps [of m] str_nat_nonempty)
    next
      case False
      with n 1(2) have "str_nat (n div 10) = str_nat (m div 10)"
        and d: "digit_char (n mod 10) = digit_char (m mod 10)"
        by (simp_all add: str_nat.simps [of n] str_nat.simps [of m])
      then have "n div 10 = m div 10" using 1(1) n by simp
      moreover have "n mod 10 = m mod 10" using d by (simp add: digit_char_inj)
      ultimately show ?thesis by (metis div_mult_mod_eq)
    qed
  qed
qed

lemma split_at_first:
  "c \<notin> set xs \<Longrightarrow> c \<notin> set ys \<Longrightarrow> xs @ c # a = ys @ c # b \<Longrightarrow> xs = ys"
proof (induction xs arbitrary: ys)
  case Nil
  then show ?case by (cases ys) auto
next
  case (Cons x xs)
  then show ?case by (cases ys) auto
qed

lemma run_id_inj:
  "''run-'' @ str_nat n @ ''-'' @ a = ''run-'' @ str_nat m @ ''-'' @ b \<Longrightarrow> n = m"
proof -
  assume "''run-'' @ str_nat n @ ''-'' @ a = ''run-'' @ str_nat m @ ''-'' @ b"
  then have "str_nat n @ CHR ''-'' # a = str_nat m @ CHR ''-'' # b" by simp
  then have "str_nat n = str_nat m"
    by (rule split_at_first [OF dash_notin_str_nat dash_notin_str_nat])
  then show ?thesis by (rule str_nat_inj)
qed


section \<open>Dictionaries, broadcast and append\<close>

lemma map_of_dict_set: "map_of (dict_set k v d) = (map_of d)(k \<mapsto> v)"
  by (induction d) (auto simp: fun_eq_iff)

lemma keys_dict_set: "fst ` set (dict_set k v d) = insert k (fst ` set d)"
  by (simp add: dom_map_of_conv_image_fst [symmetric] map_of_dict_set)

lemma length_dict_set:
  "length (dict_set k v d) = (if map_of d k = None then Suc (length d) else length d)"
  by (induction d) auto

lemma broadcast_log_fields:
  "runs (broadcast_log s e ok) = runs s"
  "logs (broadcast_log s e ok) = logs s"
  "metrics (broadcast_log s e ok) = metrics s"
  "log_counter (broadcast_log s e ok) = log_counter s"
  "s3_puts (broadcast_log s e ok) = s3_puts s"
  "k8s_calls (broadcast_log s e ok) = k8s_calls s"
  by (simp_all add: broadcast_log_def split: prod.splits)


lemma logs_of_broadcast_log: "logs_of (broadcast_log s e ok) k = logs_of s k"
  by (simp add: logs_of_def broadcast_log_fields)

lemma add_log_fields:
  "runs (add_log s rid lvl msg io) = runs s"
  "metrics (add_log s rid lvl msg io) = metrics s"
  "log_counter (add_log s rid lvl msg io) = log_counter s + 1"
  "s3_puts (add_log s rid lvl msg io) = s3_puts s"
  "k8s_calls (add_log s rid lvl msg io) = k8s_calls s"
  by (simp_all add: add_log_def Let_def broadcast_log_fields)

lemma map_of_logs_add_log:
  "map_of (logs (add_log s rid lvl msg io)) =
     (map_of (logs s))(rid \<mapsto> logs_of s rid @
        [\<lparr>log_id = log_counter s, runId = rid, timestamp = now io, level = lvl, message = msg\<rparr>])"
  by (auto simp: add_log_def Let_def broadcast_log_fields map_of_dict_set logs_of_def fun_eq_iff)

lemma logs_of_add_log:
  "logs_of (add_log s rid lvl msg io) k =
     (if k = rid
      then logs_of s rid @
        [\<lparr>log_id = log_counter s, runId = rid, timestamp = now io, level = lvl, message = msg\<rparr>]
      else logs_of s k)"
  unfolding logs_of_def [of "add_log s rid lvl msg io"] map_of_logs_add_log
  by (simp add: logs_of_def)

lemma status_of_add_log: "status_of (add_log s rid lvl msg io) k = status_of s k"
  by (simp add: status_of_def add_log_fields)

lemma store_run_fields:
  "logs (store_run s rid run) = logs s"
  "metrics (store_run s rid run) = metrics s"
  "log_counter (store_run s rid run) = log_counter s"
  "k8s_calls (store_run s rid run) = k8s_calls s"
  "map_of (runs (store_run s rid run)) = (map_of (runs s))(rid \<mapsto> run)"
  by (simp_all add: store_run_def map_of_dict_set)

lemma logs_of_store_run: "logs_of (store_run s rid run) k = logs_of s k"
  by (simp add: logs_of_def store_run_fields)


section \<open>The three ways through \<open>create_run\<close>\<close>

lemma new_run_fields [simp]:
  "run_id (new_run rid req t) = rid"
  "run_name (new_run rid req t) = req_name req"
  "status (new_run rid req t) = PENDING"
  "checkpointIn (new_run rid req t) = req_checkpointIn req"
  by (simp_all add: new_run_def)

lemma create_run_upload_fails:
  assumes "put io = ClientError e"
  shows "create_run cfg s req io =
    (s\<lparr>runs := dict_set (new_run_id s (stamp io))
                   (new_run (new_run_id s (stamp io)) req (created io)) (runs s),
        logs := dict_set (new_run_id s (stamp io)) [] (logs s),
        metrics := dict_set (new_run_id s (stamp io)) [] (metrics s),
        s3_puts := s3_puts s @ [\<lparr>Bucket = S3_ARTIFACTS_BUCKET cfg,
           Key = ''glue/'' @ new_run_id s (stamp io) @ ''/run.py'',
           Body = req_glueCode req, ContentType = ''text/plain''\<rparr>]\<rparr>,
     Inl (HTTPException 500 ''Failed to upload glue code''))"
  using assms by (simp add: create_run_def upload_glue_code_def Let_def)


lemma create_run_submit_fails:
  assumes "put io = PutOk" and "submit io = ApiException e"
  shows "create_run cfg s req io =
    (add_log
       (store_run
          (s\<lparr>runs := dict_set (new_run_id s (stamp io))
                     (new_run (new_run_id s (stamp io)) req (created io)) (runs s),
             logs := dict_set (new_run_id s (stamp io)) [] (logs s),
             metrics := dict_set (new_run_id s (stamp io)) [] (metrics s),
             s3_puts := s3_puts s @ [\<lparr>Bucket = S3_ARTIFACTS_BUCKET cfg,
                Key = ''glue/'' @ new_run_id s (stamp io) @ ''/run.py'',
                Body = req_glueCode req, ContentType = ''text/plain''\<rparr>],
             k8s_calls := k8s_calls s @ [CreateJob (NAMESPACE cfg)
                (prepare_job_template cfg (new_run (new_run_id s (stamp io)) req (created io))
                   (activeDeadlineSeconds req))]\<rparr>)
          (new_run_id s (stamp io))
          ((new_run (new_run_id s (stamp io)) req (created io))\<lparr>status := FAILED\<rparr>))
       (new_run_id s (stamp io)) ERROR (''Failed to create Kubernetes job: '' @ e) (job_log io),
     Inl (HTTPException 500 ''Failed to create simulation job''))"
  using assms by (simp add: create_run_def upload_glue_code_def create_k8s_job_def Let_def)

lemma create_run_succeeds:
  assumes "put io = PutOk" and "submit io = ApiOk"
  shows "create_run cfg s req io =
    (add_log
      (add_log
         (store_run
            (s\<lparr>runs := dict_set (new_run_id s (stamp io))
                       (new_run (new_run_id s (stamp io)) req (created io)) (runs s),
               logs := dict_set (new_run_id s (stamp io)) [] (logs s),
               metrics := dict_set (new_run_id s (stamp io)) [] (metrics s),
               s3_puts := s3_puts s @ [\<lparr>Bucket = S3_ARTIFACTS_BUCKET cfg,
                  Key = ''glue/'' @ new_run_id s (stamp io) @ ''/run.py'',
                  Body = req_glueCode req, ContentType = ''text/plain''\<rparr>],
               k8s_calls := k8s_calls s @ [CreateJob (NAMESPACE cfg)
                  (prepare_job_template cfg (new_run (new_run_id s (stamp io)) req (created io))
                     (activeDeadlineSeconds req))]\<rparr>)
            (new_run_id s (stamp io))
            ((new_run (new_run_id s (stamp io)) req (created io))\<lparr>status := RUNNING\<rparr>))
         (new_run_id s (stamp io)) INFO ''Kubernetes job created and started'' (job_log io))
      (new_run_id s (stamp io)) INFO (''Run '' @ req_name req @ '' created and queued'')
      (queued_log io),
     Inr ((new_run (new_run_id s (stamp io)) req (created io))\<lparr>status := RUNNING\<rparr>))"
  using assms by (simp add: create_run_def upload_glue_code_def create_k8s_job_def Let_def)


lemma dict_set_twice: "dict_set k v (dict_set k v' d) = dict_set k v d"
  by (induction d) auto

lemma runs_create_run:
  "\<exists>st. (st = PENDING \<or> st = RUNNING \<or> st = FAILED) \<and>
     runs (fst (create_run cfg s req io)) =
       dict_set (new_run_id s (stamp io))
         ((new_run (new_run_id s (stamp io)) req (created io))\<lparr>status := st\<rparr>) (runs s)"
proof (cases "put io")
  case PutOk
  show ?thesis
  proof (cases "submit io")
    case ApiOk
    show ?thesis
      by (rule exI [of _ RUNNING])
         (simp add: create_run_succeeds [OF PutOk ApiOk] add_log_fields store_run_def
            dict_set_twice)
  next
    case (ApiException e)
    show ?thesis
      by (rule exI [of _ FAILED])
         (simp add: create_run_submit_fails [OF PutOk ApiException] add_log_fields store_run_def
            dict_set_twice)
  qed
next
  case (ClientError e)
  show ?thesis
    by (rule exI [of _ PENDING]) (simp add: create_run_upload_fails [OF ClientError] new_run_def)
qed

section \<open>The registry only grows, by fresh ids\<close>

lemma new_run_id_fresh:
  assumes "ids_numbered s"
  shows "new_run_id s a \<notin> fst ` set (runs s)"
proof
  assume "new_run_id s a \<in> fst ` set (runs s)"
  with assms obtain n b where n: "n \<le> length (runs s)"
    and eq: "new_run_id s a = ''run-'' @ str_nat n @ ''-'' @ b"
    unfolding ids_numbered_def by blast
  from eq have "length (runs s) + 1 = n"
    unfolding new_run_id_def by (rule run_id_inj)
  with n show False by simp
qed

lemma new_run_id_unregistered: "ids_numbered s \<Longrightarrow> map_of (runs s) (new_run_id s a) = None"
  using new_run_id_fresh [of s a] by (simp add: map_of_eq_None_iff)

lemma ids_numbered_register:
  assumes "ids_numbered s" and "runs s' = dict_set (new_run_id s a) r (runs s)"
  shows "ids_numbered s'"
proof -
  have len: "length (runs s') = Suc (length (runs s))"
    using assms new_run_id_unregistered [OF assms(1), of a] by (simp add: length_dict_set)
  show ?thesis
    unfolding ids_numbered_def
  proof
    fix k assume "k \<in> fst ` set (runs s')"
    then consider "k = new_run_id s a" | "k \<in> fst ` set (runs s)"
      using assms(2) by (auto simp: keys_dict_set)
    then show "\<exists>n b. n \<le> length (runs s') \<and> k = ''run-'' @ str_nat n @ ''-'' @ b"
    proof cases
      case 1
      then show ?thesis using len unfolding new_run_id_def by (intro exI [of _ "length (runs s) + 1"] exI [of _ a]) simp
    next
      case 2
      with assms(1) obtain n b where "n \<le> length (runs s)" "k = ''run-'' @ str_nat n @ ''-'' @ b"
        unfolding ids_numbered_def by blast
      then show ?thesis using len by (intro exI [of _ n] exI [of _ b]) simp
    qed
  qed
qed

lemma ids_numbered_create_run:
  "ids_numbered s \<Longrightarrow> ids_numbered (fst (create_run cfg s req io))"
  using runs_create_run [of cfg s req io] ids_numbered_register by blast

text \<open>What \<open>cancel_run\<close> does to the registry: nothing, or the status of the run it
  found becomes \<open>CANCELLED\<close>.\<close>

lemma runs_cancel_run:
  "runs (fst (cancel_run cfg s rid io)) = runs s \<or>
   (\<exists>run. map_of (runs s) rid = Some run \<and> status run \<in> {PENDING, RUNNING} \<and>
      delete io = ApiOk \<and>
      runs (fst (cancel_run cfg s rid io)) = dict_set rid (run\<lparr>status := CANCELLED\<rparr>) (runs s))"
  by (auto simp: cancel_run_def Let_def add_log_fields store_run_def
        split: option.splits k8s_outcome.splits)

lemma ids_numbered_same_keys:
  assumes "ids_numbered s" and "runs s' = dict_set k r (runs s)" and "map_of (runs s) k = Some r0"
  shows "ids_numbered s'"
proof -
  have "k \<in> fst ` set (runs s)" using assms(3) by (metis map_of_eq_None_iff option.distinct(1))
  then have "fst ` set (runs s') = fst ` set (runs s)" and "length (runs s') = length (runs s)"
    using assms(2,3) by (auto simp: keys_dict_set length_dict_set)
  with assms(1) show ?thesis by (simp add: ids_numbered_def)
qed

lemma ids_numbered_cancel_run:
  "ids_numbered s \<Longrightarrow> ids_numbered (fst (cancel_run cfg s rid io))"
proof -
  assume inv: "ids_numbered s"
  from runs_cancel_run [of cfg s rid io] show ?thesis
  proof (elim disjE exE conjE)
    assume "runs (fst (cancel_run cfg s rid io)) = runs s"
    with inv show ?thesis by (simp add: ids_numbered_def)
  next
    fix run
    assume "map_of (runs s) rid = Some run"
      and "runs (fst (cancel_run cfg s rid io)) = dict_set rid (run\<lparr>status := CANCELLED\<rparr>) (runs s)"
    with inv show ?thesis by (blast intro: ids_numbered_same_keys)
  qed
qed

lemma ids_numbered_step: "ids_numbered s \<Longrightarrow> ids_numbered (step cfg s r)"
proof (cases r)
  case (CreateRun req io)
  assume "ids_numbered s"
  then show ?thesis using CreateRun by (simp add: ids_numbered_create_run)
next
  case (CancelRun rid io)
  assume "ids_numbered s"
  then show ?thesis using CancelRun by (simp add: ids_numbered_cancel_run)
next
  case (Connect ws)
  assume "ids_numbered s"
  then show ?thesis using Connect by (simp add: ids_numbered_def ws_connect_def)
next
  case (Disconnect ws)
  assume "ids_numbered s"
  then show ?thesis using Disconnect by (simp add: ids_numbered_def ws_disconnect_def)
qed

lemma exec_snoc: "exec cfg (rs @ [r]) = step cfg (exec cfg rs) r"
  by (simp add: exec_def)

lemma ids_numbered_exec: "ids_numbered (exec cfg rs)"
proof (induction rs rule: rev_induct)
  case Nil
  show ?case by (simp add: exec_def ids_numbered_def init_def)
next
  case (snoc r rs)
  then show ?case by (simp add: exec_snoc ids_numbered_step)
qed

lemma keys_step_mono: "fst ` set (runs s) \<subseteq> fst ` set (runs (step cfg s r))"
proof (cases r)
  case (CreateRun req io)
  from runs_create_run [of cfg s req io] obtain st where
    "runs (fst (create_run cfg s req io)) =
       dict_set (new_run_id s (stamp io))
         ((new_run (new_run_id s (stamp io)) req (created io))\<lparr>status := st\<rparr>) (runs s)"
    by blast
  then show ?thesis using CreateRun by (simp add: keys_dict_set subset_insertI)
next
  case (CancelRun rid io)
  from runs_cancel_run [of cfg s rid io] show ?thesis
  proof (elim disjE exE conjE)
    assume "runs (fst (cancel_run cfg s rid io)) = runs s"
    then show ?thesis using CancelRun by simp
  next
    fix run
    assume "runs (fst (cancel_run cfg s rid io)) = dict_set rid (run\<lparr>status := CANCELLED\<rparr>) (runs s)"
    then show ?thesis using CancelRun by (simp add: keys_dict_set subset_insertI)
  qed
next
  case (Connect ws)
  then show ?thesis by (simp add: ws_connect_def)
next
  case (Disconnect ws)
  then show ?thesis by (simp add: ws_disconnect_def)
qed

lemma new_run_id_registered:
  "new_run_id s (stamp io) \<in> fst ` set (runs (fst (create_run cfg s req io)))"
proof -
  from runs_create_run [of cfg s req io] obtain st where
    "runs (fst (create_run cfg s req io)) =
       dict_set (new_run_id s (stamp io))
         ((new_run (new_run_id s (stamp io)) req (created io))\<lparr>status := st\<rparr>) (runs s)"
    by blast
  then show ?thesis by (simp add: keys_dict_set)
qed

lemma allocated_ids_fresh:
  "ids_numbered s \<Longrightarrow>
     distinct (allocated_ids cfg s rs) \<and> set (allocated_ids cfg s rs) \<inter> fst ` set (runs s) = {}"
proof (induction rs arbitrary: s)
  case Nil
  show ?case by simp
next
  case (Cons r rs)
  have inv: "ids_numbered (step cfg s r)" using Cons.prems by (rule ids_numbered_step)
  note IH = Cons.IH [OF inv]
  have mono: "fst ` set (runs s) \<subseteq> fst ` set (runs (step cfg s r))" by (rule keys_step_mono)
  show ?case
  proof (cases r)
    case (CreateRun req io)
    have "new_run_id s (stamp io) \<in> fst ` set (runs (step cfg s r))"
      using CreateRun by (simp add: new_run_id_registered)
    with IH have "new_run_id s (stamp io) \<notin> set (allocated_ids cfg (step cfg s r) rs)" by blast
    moreover have "new_run_id s (stamp io) \<notin> fst ` set (runs s)"
      using Cons.prems by (rule new_run_id_fresh)
    ultimately show ?thesis using IH mono CreateRun by auto
  next
    case (CancelRun rid io)
    then show ?thesis using IH mono by auto
  next
    case (Connect ws)
    then show ?thesis using IH mono by auto
  next
    case (Disconnect ws)
    then show ?thesis using IH mono by auto
  qed
qed

lemma returned_run_id:
  "snd (create_run cfg s req io) = Inr run \<Longrightarrow> run_id run = new_run_id s (stamp io)"
proof (cases "put io")
  case PutOk
  assume r: "snd (create_run cfg s req io) = Inr run"
  show ?thesis
  proof (cases "submit io")
    case ApiOk
    with r PutOk show ?thesis by (auto simp: create_run_succeeds)
  next
    case (ApiException e)
    with r PutOk show ?thesis by (simp add: create_run_submit_fails)
  qed
next
  case (ClientError e)
  assume "snd (create_run cfg s req io) = Inr run"
  with ClientError show ?thesis by (simp add: create_run_upload_fails)
qed

section \<open>The four ways through \<open>cancel_run\<close>\<close>

lemma cancel_run_not_found:
  "map_of (runs s) rid = None \<Longrightarrow>
     cancel_run cfg s rid io = (s, Inl (HTTPException 404 ''Run not found''))"
  by (simp add: cancel_run_def)

lemma cancel_run_refused:
  "map_of (runs s) rid = Some run \<Longrightarrow> terminal (status run) \<Longrightarrow>
     cancel_run cfg s rid io = (s, Inl (HTTPException 400 ''Run cannot be cancelled''))"
  by (auto simp: cancel_run_def terminal_def)

lemma cancel_run_delete_fails:
  "map_of (runs s) rid = Some run \<Longrightarrow> \<not> terminal (status run) \<Longrightarrow> delete io = ApiException e \<Longrightarrow>
     cancel_run cfg s rid io =
       (s\<lparr>k8s_calls := k8s_calls s @ [DeleteJob (''sim-run-'' @ rid) (NAMESPACE cfg)]\<rparr>,
        Inl (HTTPException 500 ''Failed to cancel run''))"
  by (cases "status run") (simp_all add: cancel_run_def terminal_def Let_def)

lemma cancel_run_succeeds:
  "map_of (runs s) rid = Some run \<Longrightarrow> \<not> terminal (status run) \<Longrightarrow> delete io = ApiOk \<Longrightarrow>
     cancel_run cfg s rid io =
       (add_log
          (store_run
             (s\<lparr>k8s_calls := k8s_calls s @ [DeleteJob (''sim-run-'' @ rid) (NAMESPACE cfg)]\<rparr>)
             rid (run\<lparr>status := CANCELLED\<rparr>))
          rid INFO ''Run cancelled by user'' (cancel_log io),
        Inr ''Run cancelled successfully'')"
  by (cases "status run") (simp_all add: cancel_run_def terminal_def Let_def)

section \<open>Log streams stay well formed\<close>

text \<open>Giving a run an empty stream, in a registry that has the run.\<close>

lemma logs_wf_reset:
  assumes wf: "logs_wf s"
    and r: "\<And>k. map_of (runs s') k = None \<Longrightarrow> map_of (runs s) k = None \<and> k \<noteq> rid"
    and l: "logs s' = dict_set rid [] (logs s)"
    and c: "log_counter s' = log_counter s"
  shows "logs_wf s'"
proof -
  have lo: "\<And>k. logs_of s' k = (if k = rid then [] else logs_of s k)"
    by (simp add: logs_of_def l map_of_dict_set)
  have m: "\<And>k. k \<noteq> rid \<Longrightarrow> map_of (logs s') k = map_of (logs s) k"
    by (simp add: l map_of_dict_set)
  show ?thesis
    unfolding logs_wf_def
  proof (intro conjI allI impI ballI)
    fix k assume "map_of (runs s') k = None"
    then have "map_of (runs s) k = None" "k \<noteq> rid" using r by blast+
    then show "map_of (logs s') k = None" using wf m by (simp add: logs_wf_def)
  next
    fix k e assume "e \<in> set (logs_of s' k)"
    then show "log_id e < log_counter s'" using wf c by (auto simp: lo logs_wf_def split: if_splits)
  next
    fix k show "sorted_wrt (<) (map log_id (logs_of s' k))" using wf by (simp add: lo logs_wf_def)
  next
    fix k k' e e'
    assume "e \<in> set (logs_of s' k)" "e' \<in> set (logs_of s' k')" "log_id e = log_id e'"
    then have "e \<in> set (logs_of s k)" "e' \<in> set (logs_of s k')"
      by (auto simp: lo split: if_splits)
    with \<open>log_id e = log_id e'\<close> wf show "k = k'" unfolding logs_wf_def by blast
  qed
qed

text \<open>Changing the registry without removing a run.\<close>

lemma logs_wf_runs:
  assumes wf: "logs_wf s"
    and r: "\<And>k. map_of (runs s') k = None \<Longrightarrow> map_of (runs s) k = None"
    and l: "logs s' = logs s"
    and c: "log_counter s' = log_counter s"
  shows "logs_wf s'"
  using wf r unfolding logs_wf_def logs_of_def l c by blast

text \<open>Appending an entry to the stream of a run of the registry.\<close>

lemma logs_wf_add_log:
  assumes wf: "logs_wf s" and r: "map_of (runs s) rid \<noteq> None"
  shows "logs_wf (add_log s rid lvl msg io)"
proof -
  let ?s' = "add_log s rid lvl msg io"
  let ?e = "\<lparr>log_id = log_counter s, runId = rid, timestamp = now io, level = lvl, message = msg\<rparr>"
  have lo: "\<And>k. logs_of ?s' k = (if k = rid then logs_of s rid @ [?e] else logs_of s k)"
    by (rule logs_of_add_log)
  have below: "\<And>k e. e \<in> set (logs_of s k) \<Longrightarrow> log_id e < log_counter s"
    using wf unfolding logs_wf_def by blast
  show ?thesis
    unfolding logs_wf_def
  proof (intro conjI allI impI ballI)
    fix k assume "map_of (runs ?s') k = None"
    then have "map_of (runs s) k = None" by (simp add: add_log_fields)
    then have "k \<noteq> rid" "map_of (logs s) k = None" using r wf by (auto simp: logs_wf_def)
    then show "map_of (logs ?s') k = None" by (simp add: map_of_logs_add_log)
  next
    fix k e assume "e \<in> set (logs_of ?s' k)"
    then have "e \<in> set (logs_of s k) \<or> e = ?e" by (auto simp: lo split: if_splits)
    then show "log_id e < log_counter ?s'" using below [of e k] by (auto simp: add_log_fields)
  next
    fix k
    have "sorted_wrt (<) (map log_id (logs_of s k))" using wf by (simp add: logs_wf_def)
    then show "sorted_wrt (<) (map log_id (logs_of ?s' k))"
      using below [of _ rid] by (auto simp: lo sorted_wrt_append)
  next
    fix k k' e e'
    assume e: "e \<in> set (logs_of ?s' k)" and e': "e' \<in> set (logs_of ?s' k')"
      and eq: "log_id e = log_id e'"
    from e have c: "(e \<in> set (logs_of s k)) \<or> (k = rid \<and> e = ?e)"
      by (auto simp: lo split: if_splits)
    from e' have c': "(e' \<in> set (logs_of s k')) \<or> (k' = rid \<and> e' = ?e)"
      by (auto simp: lo split: if_splits)
    from c c' show "k = k'"
    proof (elim disjE conjE)
      assume "e \<in> set (logs_of s k)" "e' \<in> set (logs_of s k')"
      with eq wf show ?thesis unfolding logs_wf_def by blast
    next
      assume "e \<in> set (logs_of s k)" "e' = ?e"
      with eq below [of e k] show ?thesis by simp
    next
      assume "e = ?e" "e' \<in> set (logs_of s k')"
      with eq below [of e' k'] show ?thesis by simp
    next
      assume "k = rid" "k' = rid"
      then show ?thesis by simp
    qed
  qed
qed

lemma logs_wf_create_run:
  assumes wf: "logs_wf s"
  shows "logs_wf (fst (create_run cfg s req io))"
proof -
  let ?rid = "new_run_id s (stamp io)"
  let ?run = "new_run ?rid req (created io)"
  let ?put = "\<lparr>Bucket = S3_ARTIFACTS_BUCKET cfg, Key = ''glue/'' @ ?rid @ ''/run.py'',
                Body = req_glueCode req, ContentType = ''text/plain''\<rparr>"
  let ?job = "CreateJob (NAMESPACE cfg) (prepare_job_template cfg ?run (activeDeadlineSeconds req))"
  have reg: "\<And>p c. logs_wf (s\<lparr>runs := dict_set ?rid ?run (runs s), logs := dict_set ?rid [] (logs s),
                 metrics := dict_set ?rid [] (metrics s), s3_puts := p, k8s_calls := c\<rparr>)"
    by (rule logs_wf_reset [OF wf]) (simp_all add: map_of_dict_set split: if_splits)
  have st: "\<And>p c r. logs_wf (store_run (s\<lparr>runs := dict_set ?rid ?run (runs s),
                 logs := dict_set ?rid [] (logs s), metrics := dict_set ?rid [] (metrics s),
                 s3_puts := p, k8s_calls := c\<rparr>) ?rid r)"
    by (rule logs_wf_runs [OF reg]) (simp_all add: store_run_def map_of_dict_set split: if_splits)
  show ?thesis
  proof (cases "put io")
    case (ClientError e)
    have "logs_wf (s\<lparr>runs := dict_set ?rid ?run (runs s), logs := dict_set ?rid [] (logs s),
                 metrics := dict_set ?rid [] (metrics s), s3_puts := s3_puts s @ [?put]\<rparr>)"
      by (rule logs_wf_reset [OF wf]) (simp_all add: map_of_dict_set split: if_splits)
    then show ?thesis by (simp add: create_run_upload_fails [OF ClientError])
  next
    case PutOk
    show ?thesis
    proof (cases "submit io")
      case ApiOk
      show ?thesis
        unfolding create_run_succeeds [OF PutOk ApiOk] fst_conv
        by (intro logs_wf_add_log st) (simp_all add: add_log_fields store_run_fields)
    next
      case (ApiException e)
      show ?thesis
        unfolding create_run_submit_fails [OF PutOk ApiException] fst_conv
        by (intro logs_wf_add_log st) (simp_all add: add_log_fields store_run_fields)
    qed
  qed
qed

lemma logs_wf_cancel_run:
  assumes wf: "logs_wf s"
  shows "logs_wf (fst (cancel_run cfg s rid io))"
proof (cases "map_of (runs s) rid")
  case None
  then show ?thesis using wf by (simp add: cancel_run_not_found)
next
  case (Some run)
  show ?thesis
  proof (cases "terminal (status run)")
    case True
    then show ?thesis using wf Some by (simp add: cancel_run_refused)
  next
    case False
    let ?s1 = "s\<lparr>k8s_calls := k8s_calls s @ [DeleteJob (''sim-run-'' @ rid) (NAMESPACE cfg)]\<rparr>"
    have s1: "logs_wf ?s1" by (rule logs_wf_runs [OF wf]) simp_all
    show ?thesis
    proof (cases "delete io")
      case ApiOk
      have "logs_wf (store_run ?s1 rid (run\<lparr>status := CANCELLED\<rparr>))"
        by (rule logs_wf_runs [OF s1]) (simp_all add: store_run_def map_of_dict_set split: if_splits)
      then have "logs_wf (add_log (store_run ?s1 rid (run\<lparr>status := CANCELLED\<rparr>)) rid INFO
                   ''Run cancelled by user'' (cancel_log io))"
        by (rule logs_wf_add_log) (simp add: store_run_fields)
      then show ?thesis unfolding cancel_run_succeeds [OF Some False ApiOk] fst_conv .
    next
      case (ApiException e)
      show ?thesis unfolding cancel_run_delete_fails [OF Some False ApiException] fst_conv
        by (rule s1)
    qed
  qed
qed

lemma ws_fields:
  "runs (ws_connect s ws) = runs s"
  "logs (ws_connect s ws) = logs s"
  "log_counter (ws_connect s ws) = log_counter s"
  "runs (fst (ws_disconnect s ws)) = runs s"
  "logs (fst (ws_disconnect s ws)) = logs s"
  "log_counter (fst (ws_disconnect s ws)) = log_counter s"
  by (simp_all add: ws_connect_def ws_disconnect_def)

lemma logs_wf_step: "logs_wf s \<Longrightarrow> logs_wf (step cfg s r)"
proof (cases r)
  case (CreateRun req io)
  assume "logs_wf s"
  then show ?thesis using CreateRun by (simp add: logs_wf_create_run)
next
  case (CancelRun rid io)
  assume "logs_wf s"
  then show ?thesis using CancelRun by (simp add: logs_wf_cancel_run)
next
  case (Connect ws)
  assume wf: "logs_wf s"
  have "logs_wf (ws_connect s ws)" by (rule logs_wf_runs [OF wf]) (simp_all add: ws_fields)
  then show ?thesis using Connect by simp
next
  case (Disconnect ws)
  assume wf: "logs_wf s"
  have "logs_wf (fst (ws_disconnect s ws))"
    by (rule logs_wf_runs [OF wf]) (simp_all add: ws_fields)
  then show ?thesis using Disconnect by simp
qed

lemma logs_wf_exec: "logs_wf (exec cfg rs)"
proof (induction rs rule: rev_induct)
  case Nil
  show ?case by (simp add: exec_def logs_wf_def logs_of_def init_def)
next
  case (snoc r rs)
  then show ?case by (simp add: exec_snoc logs_wf_step)
qed

section \<open>What a request appends to a stream\<close>

lemma logs_of_frame:
  "logs_of (s\<lparr>k8s_calls := c\<rparr>) k = logs_of s k"
  "logs_of (ws_connect s ws) k = logs_of s k"
  "logs_of (fst (ws_disconnect s ws)) k = logs_of s k"
  by (simp_all add: logs_of_def ws_fields)

lemma logs_of_reset:
  "logs s' = dict_set rid [] (logs s) \<Longrightarrow> logs_of s' k = (if k = rid then [] else logs_of s k)"
  by (simp add: logs_of_def map_of_dict_set)

lemma fresh_stream_empty:
  assumes "ids_numbered s" and "logs_wf s"
  shows "logs_of s (new_run_id s a) = []"
proof -
  have "map_of (runs s) (new_run_id s a) = None" using assms(1) by (rule new_run_id_unregistered)
  with assms(2) have "map_of (logs s) (new_run_id s a) = None" by (simp add: logs_wf_def)
  then show ?thesis by (simp add: logs_of_def)
qed

lemma logs_of_create_run:
  assumes "ids_numbered s" and "logs_wf s"
  shows "\<exists>ys. logs_of (fst (create_run cfg s req io)) k = logs_of s k @ ys \<and>
           (\<forall>e \<in> set ys. log_counter s \<le> log_id e)"
proof -
  let ?rid = "new_run_id s (stamp io)"
  have e: "logs_of s ?rid = []" using assms by (rule fresh_stream_empty)
  show ?thesis
  proof (cases "put io")
    case (ClientError x)
    have "logs_of (fst (create_run cfg s req io)) k = logs_of s k @ []"
      using e by (simp add: create_run_upload_fails [OF ClientError] logs_of_reset)
    then show ?thesis by (intro exI [of _ "[]"]) simp
  next
    case PutOk
    show ?thesis
    proof (cases "submit io")
      case ApiOk
      show ?thesis
      proof (cases "k = ?rid")
        case True
        then show ?thesis
          using e by (simp add: create_run_succeeds [OF PutOk ApiOk] logs_of_add_log
              logs_of_store_run logs_of_reset add_log_fields store_run_fields)
      next
        case False
        then have "logs_of (fst (create_run cfg s req io)) k = logs_of s k @ []"
          by (simp add: create_run_succeeds [OF PutOk ApiOk] logs_of_add_log
              logs_of_store_run logs_of_reset)
        then show ?thesis by (intro exI [of _ "[]"]) simp
      qed
    next
      case (ApiException x)
      show ?thesis
      proof (cases "k = ?rid")
        case True
        then show ?thesis
          using e by (simp add: create_run_submit_fails [OF PutOk ApiException] logs_of_add_log
              logs_of_store_run logs_of_reset add_log_fields store_run_fields)
      next
        case False
        then have "logs_of (fst (create_run cfg s req io)) k = logs_of s k @ []"
          by (simp add: create_run_submit_fails [OF PutOk ApiException] logs_of_add_log
              logs_of_store_run logs_of_reset)
        then show ?thesis by (intro exI [of _ "[]"]) simp
      qed
    qed
  qed
qed

lemma logs_of_cancel_run:
  "\<exists>ys. logs_of (fst (cancel_run cfg s rid io)) k = logs_of s k @ ys \<and>
           (\<forall>e \<in> set ys. log_counter s \<le> log_id e)"
proof (cases "map_of (runs s) rid")
  case None
  then show ?thesis by (simp add: cancel_run_not_found)
next
  case (Some run)
  show ?thesis
  proof (cases "terminal (status run)")
    case True
    then show ?thesis using Some by (simp add: cancel_run_refused)
  next
    case False
    show ?thesis
    proof (cases "delete io")
      case ApiOk
      show ?thesis
        by (cases "k = rid")
           (simp_all add: cancel_run_succeeds [OF Some False ApiOk] logs_of_add_log
              logs_of_store_run logs_of_frame store_run_fields)
    next
      case (ApiException x)
      show ?thesis
        by (simp add: cancel_run_delete_fails [OF Some False ApiException] logs_of_frame)
    qed
  qed
qed

lemma logs_of_step:
  assumes "ids_numbered s" and "logs_wf s"
  shows "\<exists>ys. logs_of (step cfg s r) k = logs_of s k @ ys \<and>
           (\<forall>e \<in> set ys. log_counter s \<le> log_id e)"
proof (cases r)
  case (CreateRun req io)
  then show ?thesis using logs_of_create_run [OF assms] by simp
next
  case (CancelRun rid io)
  then show ?thesis using logs_of_cancel_run by simp
next
  case (Connect ws)
  then show ?thesis by (simp add: logs_of_frame ws_fields)
next
  case (Disconnect ws)
  then show ?thesis by (simp add: logs_of_frame ws_fields)
qed

lemma same_stream_same_id:
  assumes "sorted_wrt (<) (map log_id es)" and "e \<in> set es" and "e' \<in> set es"
    and "log_id e = log_id e'"
  shows "e = e'"
proof -
  have "distinct (map log_id es)" using assms(1) by (simp add: strict_sorted_iff)
  then have "inj_on log_id (set es)" by (simp add: distinct_map)
  with assms(2-4) show ?thesis by (auto dest: inj_onD)
qed


section \<open>The example executions\<close>

lemma example_run_id_eq: "new_run_id init (stamp io_ok) = example_run_id"
  by (simp add: new_run_id_def init_def io_ok_def example_run_id_def str_nat.simps digit_char_def)

lemma io_ok_outcomes: "put io_ok = PutOk" "submit io_ok = ApiOk"
  by (simp_all add: io_ok_def)

lemma example_exec:
  "logs_of (exec example_config [CreateRun example_request io_ok]) example_run_id =
     [example_entry,
      \<lparr>log_id = 1, runId = example_run_id, timestamp = 0, level = INFO,
        message = ''Run demo created and queued''\<rparr>]"
  "log_counter (exec example_config [CreateRun example_request io_ok]) = 2"
  "status_of (exec example_config [CreateRun example_request io_ok]) example_run_id = Some RUNNING"
proof -
  have e: "exec example_config [CreateRun example_request io_ok] =
             fst (create_run example_config init example_request io_ok)"
    by (simp add: exec_def)
  have l0: "logs_of (init\<lparr>logs := dict_set example_run_id [] []\<rparr>) example_run_id = []"
    by (simp add: logs_of_def)
  show "logs_of (exec example_config [CreateRun example_request io_ok]) example_run_id =
     [example_entry,
      \<lparr>log_id = 1, runId = example_run_id, timestamp = 0, level = INFO,
        message = ''Run demo created and queued''\<rparr>]"
    unfolding e create_run_succeeds [OF io_ok_outcomes] example_run_id_eq fst_conv
    by (simp add: logs_of_add_log logs_of_store_run add_log_fields store_run_fields)
       (simp add: logs_of_def init_def io_ok_def all_sends_ok_def example_entry_def
          example_request_def)
  show "log_counter (exec example_config [CreateRun example_request io_ok]) = 2"
    unfolding e create_run_succeeds [OF io_ok_outcomes] fst_conv
    by (simp add: add_log_fields store_run_fields init_def)
  show "status_of (exec example_config [CreateRun example_request io_ok]) example_run_id
          = Some RUNNING"
    unfolding e create_run_succeeds [OF io_ok_outcomes] example_run_id_eq fst_conv
    by (simp add: status_of_add_log) (simp add: status_of_def store_run_fields)
qed

section \<open>What a request does to a status\<close>

lemma status_of_dict_set:
  "runs s' = dict_set rid r (runs s) \<Longrightarrow>
     status_of s' k = (if k = rid then Some (status r) else status_of s k)"
  by (simp add: status_of_def map_of_dict_set)

lemma status_of_create_run:
  "\<exists>st. (st = PENDING \<or> st = RUNNING \<or> st = FAILED) \<and>
     (\<forall>k. status_of (fst (create_run cfg s req io)) k =
            (if k = new_run_id s (stamp io) then Some st else status_of s k))"
proof -
  from runs_create_run [of cfg s req io] obtain st where
    st: "st = PENDING \<or> st = RUNNING \<or> st = FAILED" and
    r: "runs (fst (create_run cfg s req io)) =
       dict_set (new_run_id s (stamp io))
         ((new_run (new_run_id s (stamp io)) req (created io))\<lparr>status := st\<rparr>) (runs s)"
    by blast
  have "\<forall>k. status_of (fst (create_run cfg s req io)) k =
            (if k = new_run_id s (stamp io) then Some st else status_of s k)"
    by (simp add: status_of_dict_set [OF r])
  with st show ?thesis by blast
qed

lemma status_of_cancel_run:
  "status_of (fst (cancel_run cfg s rid io)) k = status_of s k \<or>
   (k = rid \<and> (status_of s k = Some PENDING \<or> status_of s k = Some RUNNING) \<and>
      status_of (fst (cancel_run cfg s rid io)) k = Some CANCELLED)"
proof -
  from runs_cancel_run [of cfg s rid io] show ?thesis
  proof (elim disjE exE conjE)
    assume "runs (fst (cancel_run cfg s rid io)) = runs s"
    then show ?thesis by (simp add: status_of_def)
  next
    fix run
    assume m: "map_of (runs s) rid = Some run" and st: "status run \<in> {PENDING, RUNNING}"
      and r: "runs (fst (cancel_run cfg s rid io)) = dict_set rid (run\<lparr>status := CANCELLED\<rparr>) (runs s)"
    show ?thesis
    proof (cases "k = rid")
      case True
      have "status_of (fst (cancel_run cfg s rid io)) rid = Some CANCELLED"
        by (simp add: status_of_dict_set [OF r])
      moreover have "status_of s rid = Some PENDING \<or> status_of s rid = Some RUNNING"
        using m st by (simp add: status_of_def)
      ultimately show ?thesis using True by simp
    next
      case False
      then show ?thesis by (simp add: status_of_dict_set [OF r])
    qed
  qed
qed

lemma status_of_ws:
  "status_of (ws_connect s ws) k = status_of s k"
  "status_of (fst (ws_disconnect s ws)) k = status_of s k"
  by (simp_all add: status_of_def ws_fields)

lemma status_step_known:
  assumes num: "ids_numbered s" and st: "status_of s k = Some st"
  shows "\<exists>st'. status_of (step cfg s r) k = Some st' \<and>
           (st' = st \<or> claimed_edge st st' \<or> (st = PENDING \<and> st' = CANCELLED))"
proof (cases r)
  case (CreateRun req io)
  have "map_of (runs s) (new_run_id s (stamp io)) = None"
    using num by (rule new_run_id_unregistered)
  then have "k \<noteq> new_run_id s (stamp io)" using st by (auto simp: status_of_def)
  then have "status_of (step cfg s r) k = Some st"
    using status_of_create_run [of cfg s req io] st CreateRun by auto
  then show ?thesis by simp
next
  case (CancelRun rid io)
  from status_of_cancel_run [of cfg s rid io k] show ?thesis
    using st CancelRun by auto
next
  case (Connect ws)
  then show ?thesis using st by (simp add: status_of_ws)
next
  case (Disconnect ws)
  then show ?thesis using st by (simp add: status_of_ws)
qed

lemma status_step_new:
  assumes st: "status_of s k = None"
  shows "status_of (step cfg s r) k = None \<or> status_of (step cfg s r) k = Some PENDING \<or>
         (\<exists>st'. status_of (step cfg s r) k = Some st' \<and> claimed_edge PENDING st')"
proof (cases r)
  case (CreateRun req io)
  from status_of_create_run [of cfg s req io] obtain st' where
    e: "st' = PENDING \<or> st' = RUNNING \<or> st' = FAILED" and
    a: "status_of (step cfg s r) k = (if k = new_run_id s (stamp io) then Some st' else status_of s k)"
    using CreateRun by auto
  show ?thesis
  proof (cases "k = new_run_id s (stamp io)")
    case True
    with a have "status_of (step cfg s r) k = Some st'" by simp
    with e show ?thesis by auto
  next
    case False
    with a st show ?thesis by simp
  qed
next
  case (CancelRun rid io)
  from status_of_cancel_run [of cfg s rid io k] show ?thesis
    using st CancelRun by auto
next
  case (Connect ws)
  then show ?thesis using st by (simp add: status_of_ws)
next
  case (Disconnect ws)
  then show ?thesis using st by (simp add: status_of_ws)
qed

lemma cancel_refused_by_status:
  assumes "status_of s k = Some st" and "terminal st"
  shows "cancel_run cfg s k io = (s, Inl (HTTPException 400 ''Run cannot be cancelled''))"
proof -
  from assms(1) obtain run where "map_of (runs s) k = Some run" "status run = st"
    by (auto simp: status_of_def)
  with assms(2) show ?thesis by (simp add: cancel_run_refused)
qed


section \<open>Two more example executions\<close>


lemma example_io:
  "put io_upload_fails = ClientError ''AccessDenied''"
  "put io_submit_fails = PutOk"
  "submit io_submit_fails = ApiException ''(403) Forbidden''"
  "stamp io_upload_fails = stamp io_ok"
  "stamp io_submit_fails = stamp io_ok"
  "created io_upload_fails = 0"
  "created io_submit_fails = 0"
  "created io_ok = 0"
  "delete cancel_ok = ApiOk"
  by (simp_all add: io_upload_fails_def io_submit_fails_def io_ok_def cancel_ok_def)

lemma exec_one: "exec cfg [r] = step cfg init r"
  by (simp add: exec_def)

lemma example_pending:
  "map_of (runs (exec example_config [CreateRun example_request io_upload_fails])) example_run_id
     = Some (new_run example_run_id example_request 0)"
  "status_of (exec example_config [CreateRun example_request io_upload_fails]) example_run_id
     = Some PENDING"
  "logs_of (exec example_config [CreateRun example_request io_upload_fails]) example_run_id = []"
  "log_counter (exec example_config [CreateRun example_request io_upload_fails]) = 0"
  by (simp_all add: exec_one create_run_upload_fails [OF example_io(1)] example_io
        example_run_id_eq status_of_def logs_of_def map_of_dict_set)
     (simp_all add: init_def)

lemma example_failed_run:
  "map_of (runs (exec example_config [CreateRun example_request io_submit_fails])) example_run_id
     = Some ((new_run example_run_id example_request 0)\<lparr>status := FAILED\<rparr>)"
  by (simp add: exec_one create_run_submit_fails [OF example_io(2,3)] example_io
        example_run_id_eq add_log_fields store_run_fields)

lemma example_failed:
  "status_of (exec example_config [CreateRun example_request io_submit_fails]) example_run_id
     = Some FAILED"
  by (simp add: status_of_def example_failed_run)

section \<open>Reading the job template\<close>

lemma monty_container:
  "container ''monty'' (prepare_job_template cfg run d) =
     Some (JObj [
       (''name'', JStr ''monty''),
       (''image'', JStr (ECR_REGISTRY cfg @ ''/'' @ repo (montyImage run) @ '':''
                          @ tag (montyImage run))),
       (''env'', JArr [
         JObj [(''name'', JStr ''CHECKPOINT_IN''), (''value'', JStr (s3_checkpoint_in run))],
         JObj [(''name'', JStr ''CHECKPOINT_OUT''), (''value'', JStr ''/checkpoints/out.mstate'')],
         JObj [(''name'', JStr ''MONTY_CONFIG''), (''value'', JStr ''/glue/monty.yaml'')],
         JObj [(''name'', JStr ''DT''), (''value'', JStr ''0.005'')]]),
       (''volumeMounts'', JArr [
         JObj [(''name'', JStr ''ckpt''), (''mountPath'', JStr ''/checkpoints'')],
         JObj [(''name'', JStr ''artifacts''), (''mountPath'', JStr ''/artifacts'')],
         JObj [(''name'', JStr ''glue''), (''mountPath'', JStr ''/glue'')]])])"
  by (simp add: container_def containers_def prepare_job_template_def Let_def)

lemma monty_env:
  "Option.bind (container ''monty'' (prepare_job_template cfg run d)) (env_value ''CHECKPOINT_IN'')
     = Some (JStr (or_empty (checkpointIn run)))"
  "Option.bind (container ''monty'' (prepare_job_template cfg run d)) (env_value ''CHECKPOINT_OUT'')
     = Some (JStr ''/checkpoints/out.mstate'')"
  by (simp_all add: monty_container env_value_def s3_checkpoint_in_def)

lemma uploader_command:
  "Option.bind (container ''artifact-uploader'' (prepare_job_template cfg run d))
     (json_get [Field ''command'', Item 2]) = Some (JStr (uploader_script cfg run))"
  by (simp add: container_def containers_def prepare_job_template_def Let_def)

lemma uploader_script_copies:
  "\<exists>pre post. uploader_script cfg run =
     pre @ ''aws s3 cp /checkpoints/out.mstate s3://'' @ S3_CHECKPOINTS_BUCKET cfg
       @ ''/checkpoints/'' @ run_id run @ ''/out.mstate --only-show-errors'' @ post"
proof -
  have "uploader_script cfg run =
     (''\<newline>'' @ blanks 36 @ ''set -e\<newline>''
       @ blanks 36 @ ''echo '' @ [CHR 0x22] @ ''Uploading artifacts...'' @ [CHR 0x22] @ ''\<newline>''
       @ blanks 36 @ ''aws s3 sync /artifacts '' @ s3_artifacts_prefix cfg run
       @ '' --only-show-errors\<newline>''
       @ blanks 36 @ ''if [ -f /checkpoints/out.mstate ]; then\<newline>'' @ blanks 40)
     @ ''aws s3 cp /checkpoints/out.mstate s3://'' @ S3_CHECKPOINTS_BUCKET cfg
       @ ''/checkpoints/'' @ run_id run @ ''/out.mstate --only-show-errors''
     @ (''\<newline>'' @ blanks 36 @ ''fi\<newline>'' @ blanks 36 @ ''echo '' @ [CHR 0x22] @ ''Done.''
        @ [CHR 0x22] @ ''\<newline>'' @ blanks 36)"
    by (simp add: uploader_script_def s3_checkpoint_out_def)
  then show ?thesis by blast
qed


lemma k8s_calls_create_run:
  assumes "put io = PutOk"
  shows "k8s_calls (fst (create_run cfg s req io)) =
    k8s_calls s @ [CreateJob (NAMESPACE cfg)
      (prepare_job_template cfg (new_run (new_run_id s (stamp io)) req (created io))
         (activeDeadlineSeconds req))]"
proof (cases "submit io")
  case ApiOk
  show ?thesis by (simp add: create_run_succeeds [OF assms ApiOk] add_log_fields store_run_fields)
next
  case (ApiException e)
  show ?thesis
    by (simp add: create_run_submit_fails [OF assms ApiException] add_log_fields store_run_fields)
qed

lemma checkpoint_in_only:
  "prepare_job_template cfg (run\<lparr>checkpointIn := c\<rparr>) d =
     json_put checkpoint_in_path (JStr (or_empty c)) (prepare_job_template cfg run d)"
  by (simp add: prepare_job_template_def Let_def checkpoint_in_path_def s3_checkpoint_in_def
        uploader_script_def s3_artifacts_prefix_def s3_checkpoint_out_def)

lemma checkpoint_in_value:
  "json_get checkpoint_in_path (prepare_job_template cfg run d) =
     Some (JStr (or_empty (checkpointIn run)))"
  by (simp add: prepare_job_template_def Let_def checkpoint_in_path_def s3_checkpoint_in_def)

lemma template_reads:
  assumes "run_id run' = run_id run"
    and "repo (montyImage run') = repo (montyImage run)"
    and "tag (montyImage run') = tag (montyImage run)"
    and "repo (simulatorImage run') = repo (simulatorImage run)"
    and "tag (simulatorImage run') = tag (simulatorImage run)"
    and "profile_id (brainProfile run') = profile_id (brainProfile run)"
    and "or_empty (checkpointIn run') = or_empty (checkpointIn run)"
  shows "prepare_job_template cfg run' d = prepare_job_template cfg run d"
  using assms
  by (simp add: prepare_job_template_def Let_def s3_checkpoint_in_def
        uploader_script_def s3_artifacts_prefix_def s3_checkpoint_out_def)


lemma blank_out_checkpoint_in:
  "json_put checkpoint_in_path v (prepare_job_template cfg (run\<lparr>checkpointIn := c\<rparr>) d) =
   json_put checkpoint_in_path v (prepare_job_template cfg run d)"
  by (simp add: prepare_job_template_def Let_def checkpoint_in_path_def s3_checkpoint_in_def
        uploader_script_def s3_artifacts_prefix_def s3_checkpoint_out_def)

section \<open>A broadcast in which no send raises\<close>

text \<open>When no send raises, the loop hands the entry to every connection from position
  \<open>i\<close> on, in order, and leaves the list as it is.\<close>

lemma broadcast_loop_all_ok:
  "\<forall>c \<in> set conns. ok c \<Longrightarrow>
     broadcast_loop ok e i (conns, sent) = (conns, sent @ map (\<lambda>c. (c, e)) (drop i conns))"
proof (induction "length conns - i" arbitrary: i sent)
  case 0
  then show ?case by (subst broadcast_loop.simps) simp
next
  case (Suc n)
  then have i: "i < length conns" and n: "n = length conns - (i + 1)" by simp_all
  have okc: "ok (conns ! i)" using i Suc.prems by simp
  have "broadcast_loop ok e (i + 1) (conns, sent @ [(conns ! i, e)]) =
          (conns, (sent @ [(conns ! i, e)]) @ map (\<lambda>c. (c, e)) (drop (i + 1) conns))"
    using n Suc.prems by (intro Suc.hyps(1))
  then show ?case
    using i okc by (subst broadcast_loop.simps) (simp add: Cons_nth_drop_Suc [symmetric])
qed

lemma broadcast_log_all_ok:
  "\<forall>c \<in> set (active_connections s). ok c \<Longrightarrow>
     broadcast_log s e ok = s\<lparr>ws_sent := ws_sent s @ map (\<lambda>c. (c, e)) (active_connections s)\<rparr>"
  by (simp add: broadcast_log_def broadcast_loop_all_ok)

section \<open>The claims\<close>

text \<open>
  Claim C7. The run ids that the \<open>create_run\<close> calls of an execution allocate, whether
  the call then succeeds or not, are pairwise distinct, whatever the clock says; and the
  run a successful call returns carries the id allocated by that call. No run is ever
  removed from the registry, so the number in front of the time stamp has not been used
  before.
\<close>

theorem run_ids_pairwise_distinct:
  "distinct (allocated_ids cfg init rs) \<and>
   (\<forall>s req io run. snd (create_run cfg s req io) = Inr run \<longrightarrow> run_id run = new_run_id s (stamp io))"
proof -
  have "ids_numbered init" by (simp add: ids_numbered_def init_def)
  then have "distinct (allocated_ids cfg init rs)" using allocated_ids_fresh by blast
  then show ?thesis using returned_run_id by blast
qed

text \<open>Two calls within the same second: the ids differ in their number.\<close>

theorem run_ids_pairwise_distinct_witness:
  "snd (create_run example_config init example_request io_ok) =
     Inr ((new_run example_run_id example_request 0)\<lparr>status := RUNNING\<rparr>)
   \<and> run_id ((new_run example_run_id example_request 0)\<lparr>status := RUNNING\<rparr>)
       = new_run_id init (stamp io_ok)
   \<and> allocated_ids example_config init
        [CreateRun example_request io_upload_fails, CreateRun example_request io_ok]
       = [''run-1-20240101-120000'', ''run-2-20240101-120000'']
   \<and> distinct [''run-1-20240101-120000'', ''run-2-20240101-120000'']"
proof -
  have ok: "put io_ok = PutOk" "submit io_ok = ApiOk" by (simp_all add: io_ok_def)
  have rid: "new_run_id init (stamp io_ok) = example_run_id"
    by (simp add: new_run_id_def init_def io_ok_def example_run_id_def str_nat.simps digit_char_def)
  have res: "snd (create_run example_config init example_request io_ok) =
     Inr ((new_run example_run_id example_request 0)\<lparr>status := RUNNING\<rparr>)"
    by (simp add: create_run_succeeds [OF ok] rid) (simp add: io_ok_def)
  have f: "put io_upload_fails = ClientError ''AccessDenied''"
    by (simp add: io_upload_fails_def)
  have len: "length (runs (fst (create_run example_config init example_request io_upload_fails))) = 1"
    by (simp add: create_run_upload_fails [OF f] init_def)
  have ids: "allocated_ids example_config init
        [CreateRun example_request io_upload_fails, CreateRun example_request io_ok]
       = [''run-1-20240101-120000'', ''run-2-20240101-120000'']"
    by (simp add: new_run_id_def len)
       (simp add: init_def io_ok_def io_upload_fails_def str_nat.simps digit_char_def)
  from run_ids_pairwise_distinct [of example_config
        "[CreateRun example_request io_upload_fails, CreateRun example_request io_ok]"]
  have "distinct (allocated_ids example_config init
        [CreateRun example_request io_upload_fails, CreateRun example_request io_ok])"
    and "run_id ((new_run example_run_id example_request 0)\<lparr>status := RUNNING\<rparr>)
       = new_run_id init (stamp io_ok)"
    using res by blast+
  then show ?thesis using res ids by simp
qed

text \<open>
  Claim C6. In every state an execution reaches, the ids of each stream increase strictly,
  every id is below the counter and no id occurs twice, within a stream or in two streams.
  \<open>add_log\<close> gives the new entry the value of the counter, puts it at the end of the
  stream, and moves the counter on by one. Whatever the next request is, each stream
  afterwards is the stream before followed by entries whose ids are not below the counter
  of before.
\<close>

theorem log_ids_increase_and_streams_grow:
  "sorted_wrt (<) (map log_id (logs_of (exec cfg rs) k))
   \<and> (\<forall>e \<in> set (logs_of (exec cfg rs) k). log_id e < log_counter (exec cfg rs))
   \<and> (\<forall>e \<in> set (logs_of (exec cfg rs) k). \<forall>e' \<in> set (logs_of (exec cfg rs) k').
         log_id e = log_id e' \<longrightarrow> k = k' \<and> e = e')
   \<and> logs_of (add_log (exec cfg rs) k lvl msg io) k =
        logs_of (exec cfg rs) k @
          [\<lparr>log_id = log_counter (exec cfg rs), runId = k, timestamp = now io, level = lvl,
             message = msg\<rparr>]
   \<and> log_counter (add_log (exec cfg rs) k lvl msg io) = log_counter (exec cfg rs) + 1
   \<and> (\<exists>ys. logs_of (step cfg (exec cfg rs) r) k = logs_of (exec cfg rs) k @ ys
         \<and> (\<forall>e \<in> set ys. log_counter (exec cfg rs) \<le> log_id e))"
proof -
  let ?s = "exec cfg rs"
  have wf: "logs_wf ?s" by (rule logs_wf_exec)
  have num: "ids_numbered ?s" by (rule ids_numbered_exec)
  have sorted: "sorted_wrt (<) (map log_id (logs_of ?s k))"
    using wf by (simp add: logs_wf_def)
  have below: "\<forall>e \<in> set (logs_of ?s k). log_id e < log_counter ?s"
    using wf by (simp add: logs_wf_def)
  have once: "\<forall>e \<in> set (logs_of ?s k). \<forall>e' \<in> set (logs_of ?s k').
                log_id e = log_id e' \<longrightarrow> k = k' \<and> e = e'"
  proof (intro ballI impI)
    fix e e'
    assume e: "e \<in> set (logs_of ?s k)" and e': "e' \<in> set (logs_of ?s k')"
      and eq: "log_id e = log_id e'"
    have k: "k = k'" using wf e e' eq unfolding logs_wf_def by blast
    with sorted e e' eq have "e = e'" by (blast intro: same_stream_same_id)
    with k show "k = k' \<and> e = e'" by simp
  qed
  have grow: "\<exists>ys. logs_of (step cfg ?s r) k = logs_of ?s k @ ys
                 \<and> (\<forall>e \<in> set ys. log_counter ?s \<le> log_id e)"
    using num wf by (rule logs_of_step)
  show ?thesis
    using sorted below once grow by (simp add: logs_of_add_log add_log_fields)
qed

text \<open>After one successful \<open>create_run\<close> the stream of the run holds the ids 0 and 1
  and the counter is 2; a cancel then appends to that stream.\<close>

theorem log_ids_increase_and_streams_grow_witness:
  "logs_of (exec example_config [CreateRun example_request io_ok]) example_run_id =
     [example_entry,
      \<lparr>log_id = 1, runId = example_run_id, timestamp = 0, level = INFO,
        message = ''Run demo created and queued''\<rparr>]
   \<and> log_id example_entry < log_counter (exec example_config [CreateRun example_request io_ok])
   \<and> sorted_wrt (<) [0, 1 :: int]
   \<and> (\<exists>ys. logs_of (step example_config (exec example_config [CreateRun example_request io_ok])
                (CancelRun example_run_id cancel_ok)) example_run_id =
             [example_entry,
              \<lparr>log_id = 1, runId = example_run_id, timestamp = 0, level = INFO,
                message = ''Run demo created and queued''\<rparr>] @ ys)"
proof -
  note t = log_ids_increase_and_streams_grow [of example_config
      "[CreateRun example_request io_ok]" example_run_id example_run_id INFO "[]" all_sends_ok
      "CancelRun example_run_id cancel_ok"]
  have m: "example_entry \<in> set (logs_of (exec example_config [CreateRun example_request io_ok])
             example_run_id)"
    by (simp add: example_exec)
  from t m have "log_id example_entry
      < log_counter (exec example_config [CreateRun example_request io_ok])"
    by blast
  moreover from t have "sorted_wrt (<) (map log_id
      (logs_of (exec example_config [CreateRun example_request io_ok]) example_run_id))"
    by blast
  then have "sorted_wrt (<) [0, 1 :: int]" by (simp add: example_exec example_entry_def)
  moreover from t have "\<exists>ys. logs_of (step example_config
        (exec example_config [CreateRun example_request io_ok])
        (CancelRun example_run_id cancel_ok)) example_run_id =
      logs_of (exec example_config [CreateRun example_request io_ok]) example_run_id @ ys"
    by blast
  ultimately show ?thesis by (simp add: example_exec)
qed

text \<open>
  Claim C1, as the code has it. Between the state an execution reaches and the state after
  the next request, the status of a run of the registry stays as it is or moves along
  one of the edges of the claim or from \<open>PENDING\<close> to \<open>CANCELLED\<close>; a run that enters
  the registry does so in \<open>PENDING\<close> or one edge away from it; and a cancel of a run
  whose status is \<open>COMPLETED\<close>, \<open>FAILED\<close> or \<open>CANCELLED\<close> raises the exception with
  code 400 and returns the state as it was.
\<close>

theorem status_moves_along_edges:
  "(status_of (exec cfg rs) k = Some st \<longrightarrow>
      (\<exists>st'. status_of (step cfg (exec cfg rs) r) k = Some st' \<and>
         (st' = st \<or> claimed_edge st st' \<or> (st = PENDING \<and> st' = CANCELLED))))
   \<and> (status_of (exec cfg rs) k = None \<longrightarrow>
        status_of (step cfg (exec cfg rs) r) k = None
        \<or> status_of (step cfg (exec cfg rs) r) k = Some PENDING
        \<or> (\<exists>st'. status_of (step cfg (exec cfg rs) r) k = Some st' \<and> claimed_edge PENDING st'))
   \<and> (status_of (exec cfg rs) k = Some st \<and> terminal st \<longrightarrow>
        cancel_run cfg (exec cfg rs) k io =
          (exec cfg rs, Inl (HTTPException 400 ''Run cannot be cancelled'')))"
  using status_step_known [OF ids_numbered_exec, of cfg rs k st cfg r]
    status_step_new [of "exec cfg rs" k cfg r]
    cancel_refused_by_status [of "exec cfg rs" k st cfg io]
  by blast

text \<open>A running run is cancelled, a run enters the registry, and a failed run cannot
  be cancelled.\<close>

theorem status_moves_along_edges_witness:
  "status_of (exec example_config [CreateRun example_request io_ok]) example_run_id = Some RUNNING
   \<and> (\<exists>st'. status_of (step example_config (exec example_config [CreateRun example_request io_ok])
                 (CancelRun example_run_id cancel_ok)) example_run_id = Some st' \<and>
          (st' = RUNNING \<or> claimed_edge RUNNING st'))
   \<and> status_of (exec example_config []) example_run_id = None
   \<and> (status_of (step example_config (exec example_config []) (CreateRun example_request io_ok))
          example_run_id = None
        \<or> status_of (step example_config (exec example_config []) (CreateRun example_request io_ok))
          example_run_id = Some PENDING
        \<or> (\<exists>st'. status_of (step example_config (exec example_config [])
                    (CreateRun example_request io_ok)) example_run_id = Some st'
              \<and> claimed_edge PENDING st'))
   \<and> status_of (exec example_config [CreateRun example_request io_submit_fails]) example_run_id
        = Some FAILED
   \<and> terminal FAILED
   \<and> cancel_run example_config (exec example_config [CreateRun example_request io_submit_fails])
        example_run_id cancel_ok =
       (exec example_config [CreateRun example_request io_submit_fails],
        Inl (HTTPException 400 ''Run cannot be cancelled''))"
proof -
  have n: "status_of (exec example_config []) example_run_id = None"
    by (simp add: exec_def status_of_def init_def)
  have t: "terminal FAILED" by (simp add: terminal_def)
  from status_moves_along_edges [of example_config "[CreateRun example_request io_ok]"
      example_run_id RUNNING "CancelRun example_run_id cancel_ok" cancel_ok]
    example_exec(3)
  have "\<exists>st'. status_of (step example_config (exec example_config [CreateRun example_request io_ok])
                 (CancelRun example_run_id cancel_ok)) example_run_id = Some st' \<and>
          (st' = RUNNING \<or> claimed_edge RUNNING st')"
    by auto
  moreover
  from status_moves_along_edges [of example_config "[]" example_run_id RUNNING
      "CreateRun example_request io_ok" cancel_ok] n
  have "status_of (step example_config (exec example_config []) (CreateRun example_request io_ok))
          example_run_id = None
        \<or> status_of (step example_config (exec example_config []) (CreateRun example_request io_ok))
          example_run_id = Some PENDING
        \<or> (\<exists>st'. status_of (step example_config (exec example_config [])
                    (CreateRun example_request io_ok)) example_run_id = Some st'
              \<and> claimed_edge PENDING st')"
    by blast
  moreover
  from status_moves_along_edges [of example_config "[CreateRun example_request io_submit_fails]"
      example_run_id FAILED "Connect 0" cancel_ok] example_failed t
  have "cancel_run example_config (exec example_config [CreateRun example_request io_submit_fails])
        example_run_id cancel_ok =
       (exec example_config [CreateRun example_request io_submit_fails],
        Inl (HTTPException 400 ''Run cannot be cancelled''))"
    by blast
  ultimately show ?thesis using example_exec(3) n example_failed t by blast
qed

text \<open>
  Against claim C1 as it is written: after a \<open>create_run\<close> whose upload fails the run is
  in the registry in \<open>PENDING\<close>; the cancel of that run succeeds and its status becomes
  \<open>CANCELLED\<close>, which is no edge of the claim.
\<close>

theorem pending_run_is_cancelled:
  "status_of (exec example_config [CreateRun example_request io_upload_fails]) example_run_id
     = Some PENDING
   \<and> snd (cancel_run example_config
            (exec example_config [CreateRun example_request io_upload_fails])
            example_run_id cancel_ok) = Inr ''Run cancelled successfully''
   \<and> status_of (step example_config
            (exec example_config [CreateRun example_request io_upload_fails])
            (CancelRun example_run_id cancel_ok)) example_run_id = Some CANCELLED
   \<and> \<not> claimed_edge PENDING CANCELLED
   \<and> PENDING \<noteq> CANCELLED"
proof -
  have nt: "\<not> terminal (status (new_run example_run_id example_request 0))"
    by (simp add: terminal_def)
  note c = cancel_run_succeeds [OF example_pending(1) nt example_io(9), of example_config]
  show ?thesis
    by (simp add: example_pending c status_of_add_log)
       (simp add: status_of_def store_run_fields)
qed

text \<open>
  Claim C9. In any state, a cancel of a run whose status is \<open>COMPLETED\<close>, \<open>FAILED\<close> or
  \<open>CANCELLED\<close> raises the exception with code 400 and returns the state it was given:
  no entry is appended to any stream, the counter stays, the list of calls made on the
  scheduler is the same, and the status of the run is the same.
\<close>

theorem cancel_of_terminal_run_is_refused:
  assumes "map_of (runs s) rid = Some run" and "terminal (status run)"
  shows "snd (cancel_run cfg s rid io) = Inl (HTTPException 400 ''Run cannot be cancelled'')
    \<and> fst (cancel_run cfg s rid io) = s
    \<and> logs (fst (cancel_run cfg s rid io)) = logs s
    \<and> log_counter (fst (cancel_run cfg s rid io)) = log_counter s
    \<and> k8s_calls (fst (cancel_run cfg s rid io)) = k8s_calls s
    \<and> status_of (fst (cancel_run cfg s rid io)) rid = Some (status run)"
  using assms by (simp add: cancel_run_refused status_of_def)


text \<open>A run that failed at submission cannot be cancelled.\<close>

theorem cancel_of_terminal_run_is_refused_witness:
  "map_of (runs (exec example_config [CreateRun example_request io_submit_fails])) example_run_id
     = Some ((new_run example_run_id example_request 0)\<lparr>status := FAILED\<rparr>)
   \<and> terminal (status ((new_run example_run_id example_request 0)\<lparr>status := FAILED\<rparr>))
   \<and> snd (cancel_run example_config
            (exec example_config [CreateRun example_request io_submit_fails])
            example_run_id cancel_ok) = Inl (HTTPException 400 ''Run cannot be cancelled'')
   \<and> fst (cancel_run example_config
            (exec example_config [CreateRun example_request io_submit_fails])
            example_run_id cancel_ok)
       = exec example_config [CreateRun example_request io_submit_fails]"
proof -
  have t: "terminal (status ((new_run example_run_id example_request 0)\<lparr>status := FAILED\<rparr>))"
    by (simp add: terminal_def)
  from cancel_of_terminal_run_is_refused [OF example_failed_run t, of example_config cancel_ok]
  show ?thesis using example_failed_run t by simp
qed





text \<open>
  Claim C4, at an input where the code departs from it. The upload raises: \<open>create_run\<close>
  raises the exception with code 500 and the run stays in the registry in \<open>PENDING\<close>, but
  its stream is empty and the counter has not moved: no entry records the failure.
\<close>

theorem failed_upload_appends_no_entry:
  "snd (create_run example_config init example_request io_upload_fails)
     = Inl (HTTPException 500 ''Failed to upload glue code'')
   \<and> status_of (fst (create_run example_config init example_request io_upload_fails))
        example_run_id = Some PENDING
   \<and> logs_of (fst (create_run example_config init example_request io_upload_fails))
        example_run_id = []
   \<and> log_counter (fst (create_run example_config init example_request io_upload_fails)) = 0"
  using example_pending
  by (simp add: exec_one create_run_upload_fails [OF example_io(1)])

text \<open>
  Claim C2, as the code has it. When the request names no checkpoint and the upload
  succeeds, \<open>create_run\<close> submits one descriptor; in it the \<open>monty\<close> container has
  \<open>CHECKPOINT_IN\<close> set to the empty string and \<open>CHECKPOINT_OUT\<close> set to the path
  \<^verbatim>\<open>/checkpoints/out.mstate\<close> on the shared volume, and the locator
  \<^verbatim>\<open>s3://<checkpoint bucket>/checkpoints/<run id>/out.mstate\<close> is the destination of the
  copy in the script of the \<open>artifact-uploader\<close> container.
\<close>

theorem no_checkpoint_in_descriptor:
  assumes "req_checkpointIn req = None" and "put io = PutOk"
  shows "\<exists>t. k8s_calls (fst (create_run cfg s req io)) = k8s_calls s @ [CreateJob (NAMESPACE cfg) t]
    \<and> Option.bind (container ''monty'' t) (env_value ''CHECKPOINT_IN'') = Some (JStr [])
    \<and> Option.bind (container ''monty'' t) (env_value ''CHECKPOINT_OUT'')
         = Some (JStr ''/checkpoints/out.mstate'')
    \<and> (\<exists>pre post.
          Option.bind (container ''artifact-uploader'' t) (json_get [Field ''command'', Item 2])
            = Some (JStr (pre @ ''aws s3 cp /checkpoints/out.mstate s3://''
                @ S3_CHECKPOINTS_BUCKET cfg @ ''/checkpoints/'' @ new_run_id s (stamp io)
                @ ''/out.mstate --only-show-errors'' @ post)))"
proof -
  let ?run = "new_run (new_run_id s (stamp io)) req (created io)"
  let ?t = "prepare_job_template cfg ?run (activeDeadlineSeconds req)"
  have k: "k8s_calls (fst (create_run cfg s req io)) = k8s_calls s @ [CreateJob (NAMESPACE cfg) ?t]"
    using assms(2) by (rule k8s_calls_create_run)
  have i: "Option.bind (container ''monty'' ?t) (env_value ''CHECKPOINT_IN'') = Some (JStr [])"
    using assms(1) by (simp add: monty_env or_empty_def)
  have u: "\<exists>pre post.
          Option.bind (container ''artifact-uploader'' ?t) (json_get [Field ''command'', Item 2])
            = Some (JStr (pre @ ''aws s3 cp /checkpoints/out.mstate s3://''
                @ S3_CHECKPOINTS_BUCKET cfg @ ''/checkpoints/'' @ new_run_id s (stamp io)
                @ ''/out.mstate --only-show-errors'' @ post))"
    using uploader_script_copies [of cfg ?run] unfolding uploader_command by simp
  from k i monty_env(2) [of cfg ?run] u show ?thesis by blast
qed

theorem no_checkpoint_in_descriptor_witness:
  "req_checkpointIn example_request = None \<and> put io_ok = PutOk
   \<and> (\<exists>t. k8s_calls (fst (create_run example_config init example_request io_ok))
             = k8s_calls init @ [CreateJob (NAMESPACE example_config) t]
        \<and> Option.bind (container ''monty'' t) (env_value ''CHECKPOINT_IN'') = Some (JStr [])
        \<and> Option.bind (container ''monty'' t) (env_value ''CHECKPOINT_OUT'')
             = Some (JStr ''/checkpoints/out.mstate''))"
proof -
  have n: "req_checkpointIn example_request = None" by (simp add: example_request_def)
  from no_checkpoint_in_descriptor [OF n io_ok_outcomes(1), of example_config init]
  show ?thesis using n io_ok_outcomes(1) by blast
qed

text \<open>
  Against claim C2 as it is written: in the descriptor of a run created without a
  checkpoint, the \<open>CHECKPOINT_OUT\<close> of the \<open>monty\<close> container is not the locator built
  from the checkpoint bucket and the run id, with or without the scheme in front.
\<close>

theorem monty_checkpoint_out_is_local:
  "req_checkpointIn example_request = None
   \<and> k8s_calls (fst (create_run example_config init example_request io_ok)) =
       [CreateJob ''monty-sim''
          (prepare_job_template example_config (new_run example_run_id example_request 0) 3600)]
   \<and> Option.bind
        (container ''monty''
           (prepare_job_template example_config (new_run example_run_id example_request 0) 3600))
        (env_value ''CHECKPOINT_OUT'') = Some (JStr ''/checkpoints/out.mstate'')
   \<and> s3_checkpoint_out example_config (new_run example_run_id example_request 0)
       = ''s3://monty-checkpoints-dev/checkpoints/run-1-20240101-120000/out.mstate''
   \<and> ''/checkpoints/out.mstate''
       \<noteq> ''s3://monty-checkpoints-dev/checkpoints/run-1-20240101-120000/out.mstate''
   \<and> ''/checkpoints/out.mstate''
       \<noteq> ''monty-checkpoints-dev/checkpoints/run-1-20240101-120000/out.mstate''"
proof -
  have k: "k8s_calls (fst (create_run example_config init example_request io_ok)) =
       [CreateJob ''monty-sim''
          (prepare_job_template example_config (new_run example_run_id example_request 0) 3600)]"
    unfolding k8s_calls_create_run [OF io_ok_outcomes(1)] example_run_id_eq
    by (simp add: init_def example_config_def example_request_def io_ok_def)
  have l: "s3_checkpoint_out example_config (new_run example_run_id example_request 0)
       = ''s3://monty-checkpoints-dev/checkpoints/run-1-20240101-120000/out.mstate''"
    by (simp add: s3_checkpoint_out_def example_config_def example_run_id_def)
  show ?thesis using k l by (simp add: monty_env) (simp add: example_request_def)
qed

text \<open>
  Claim C8. The descriptor is a function of the configuration, the run and the deadline,
  and of the run it reads the id, the repository and tag of the two images, the id of the
  profile and the checkpoint-in: two runs that agree on these give the same descriptor
  (equal runs do). Changing the checkpoint-in of a run changes the descriptor at the
  checkpoint-in value of the \<open>monty\<close> container and nowhere else: the new descriptor is
  the old one with that value replaced, and the two descriptors are equal once that
  value is overwritten in both.
\<close>

theorem descriptor_is_deterministic:
  "(run_id run' = run_id run \<and> repo (montyImage run') = repo (montyImage run)
      \<and> tag (montyImage run') = tag (montyImage run)
      \<and> repo (simulatorImage run') = repo (simulatorImage run)
      \<and> tag (simulatorImage run') = tag (simulatorImage run)
      \<and> profile_id (brainProfile run') = profile_id (brainProfile run)
      \<and> or_empty (checkpointIn run') = or_empty (checkpointIn run)
    \<longrightarrow> prepare_job_template cfg run' d = prepare_job_template cfg run d)
   \<and> prepare_job_template cfg (run\<lparr>checkpointIn := c\<rparr>) d =
       json_put checkpoint_in_path (JStr (or_empty c)) (prepare_job_template cfg run d)
   \<and> json_get checkpoint_in_path (prepare_job_template cfg run d) =
       Some (JStr (or_empty (checkpointIn run)))
   \<and> json_put checkpoint_in_path v (prepare_job_template cfg (run\<lparr>checkpointIn := c\<rparr>) d) =
       json_put checkpoint_in_path v (prepare_job_template cfg run d)"
proof (intro conjI impI)
  assume "run_id run' = run_id run \<and> repo (montyImage run') = repo (montyImage run)
      \<and> tag (montyImage run') = tag (montyImage run)
      \<and> repo (simulatorImage run') = repo (simulatorImage run)
      \<and> tag (simulatorImage run') = tag (simulatorImage run)
      \<and> profile_id (brainProfile run') = profile_id (brainProfile run)
      \<and> or_empty (checkpointIn run') = or_empty (checkpointIn run)"
  then show "prepare_job_template cfg run' d = prepare_job_template cfg run d"
    by (intro template_reads) simp_all
next
  show "prepare_job_template cfg (run\<lparr>checkpointIn := c\<rparr>) d =
       json_put checkpoint_in_path (JStr (or_empty c)) (prepare_job_template cfg run d)"
    by (rule checkpoint_in_only)
next
  show "json_get checkpoint_in_path (prepare_job_template cfg run d) =
       Some (JStr (or_empty (checkpointIn run)))"
    by (rule checkpoint_in_value)
next
  show "json_put checkpoint_in_path v (prepare_job_template cfg (run\<lparr>checkpointIn := c\<rparr>) d) =
       json_put checkpoint_in_path v (prepare_job_template cfg run d)"
    by (rule blank_out_checkpoint_in)
qed

text \<open>Two runs that differ in name and status have the same descriptor.\<close>

theorem descriptor_is_deterministic_witness:
  "run_id ((new_run example_run_id example_request 0)\<lparr>run_name := ''other'', status := RUNNING\<rparr>)
     = run_id (new_run example_run_id example_request 0)
   \<and> prepare_job_template example_config
        ((new_run example_run_id example_request 0)\<lparr>run_name := ''other'', status := RUNNING\<rparr>)
        3600
     = prepare_job_template example_config (new_run example_run_id example_request 0) 3600
   \<and> (new_run example_run_id example_request 0)\<lparr>run_name := ''other'', status := RUNNING\<rparr>
       \<noteq> new_run example_run_id example_request 0"
proof -
  from descriptor_is_deterministic [of
      "(new_run example_run_id example_request 0)\<lparr>run_name := ''other'', status := RUNNING\<rparr>"
      "new_run example_run_id example_request 0" example_config 3600 None "JStr []"]
  have "prepare_job_template example_config
        ((new_run example_run_id example_request 0)\<lparr>run_name := ''other'', status := RUNNING\<rparr>)
        3600
     = prepare_job_template example_config (new_run example_run_id example_request 0) 3600"
    by (simp add: new_run_def)
  then show ?thesis by (simp add: new_run_def)
qed

text \<open>
  Claim C3, at an input where the code departs from it. Two observers are connected and
  the send to the first one raises. The handler removes the first observer from the list
  the loop is walking, the second observer moves into the position the loop has just
  left, and the loop ends without a send to it: the second observer, whose send would
  succeed, receives nothing. When no send raises, both receive the entry.
\<close>

theorem broadcast_skips_observer_after_failed_one:
  "ws_sent (broadcast_log (init\<lparr>active_connections := [1, 2]\<rparr>) example_entry (\<lambda>c. c \<noteq> 1)) = []
   \<and> active_connections
        (broadcast_log (init\<lparr>active_connections := [1, 2]\<rparr>) example_entry (\<lambda>c. c \<noteq> 1)) = [2]
   \<and> ws_sent (broadcast_log (init\<lparr>active_connections := [1, 2]\<rparr>) example_entry (\<lambda>c. True))
       = [(1, example_entry), (2, example_entry)]"
  by (simp add: broadcast_log_def init_def broadcast_loop.simps)

end
